theory Spec2Isabelle
  imports Main "HOL-Library.Sublist" "HOL-Library.Multiset"
begin

section \<open>Python values\<close>

text \<open>
  The program is Python: API responses are parsed JSON, transaction records are
  dictionaries from field names to values. A value is modelled by \<open>pyval\<close>; a
  dictionary is an association list in insertion order (Python dictionaries keep
  it), looked up with \<open>map_of\<close>. Strings are lists of characters. Python's
  \<open>str.upper\<close> applies the Unicode case mapping of the interpreter; the model does not
  define it and takes it as a parameter \<open>up\<close>. Numbers are integers (the code only
  tests a number for truth and never computes with one).
\<close>

datatype pyval =
    PNone
  | PBool bool
  | PInt int
  | PStr string
  | PList "pyval list"
  | PDict "(string \<times> pyval) list"

type_synonym pydict = "(string \<times> pyval) list"

text \<open>
  The exceptions the code can meet. \<open>DatabaseError\<close> and \<open>InterfaceError\<close> stand for
  the subclasses of \<open>psycopg2.Error\<close>; every constructor is a subclass of Python's
  \<open>Exception\<close>, so a handler \<open>except Exception\<close> catches all of them.
\<close>

datatype exn =
    RequestException
  | RetryError
  | AttributeError
  | TypeError
  | IndexError
  | ZeroDivisionError
  | ValueError
  | DatabaseError
  | InterfaceError

definition is_psycopg2_error :: "exn \<Rightarrow> bool" where
  "is_psycopg2_error e = (e = DatabaseError \<or> e = InterfaceError)"

text \<open>\<open>d.get(k, dflt)\<close> on a dictionary.\<close>

definition dict_get :: "pydict \<Rightarrow> string \<Rightarrow> pyval \<Rightarrow> pyval" where
  "dict_get d k dflt = (case map_of d k of None \<Rightarrow> dflt | Some v \<Rightarrow> v)"

text \<open>\<open>x.get(k, dflt)\<close> on any value: only a dictionary has the method.\<close>

definition py_get :: "pyval \<Rightarrow> string \<Rightarrow> pyval \<Rightarrow> exn + pyval" where
  "py_get x k dflt = (case x of PDict d \<Rightarrow> Inr (dict_get d k dflt) | _ \<Rightarrow> Inl AttributeError)"

text \<open>Truth value of \<open>x\<close> in \<open>not x\<close>.\<close>

fun truthy :: "pyval \<Rightarrow> bool" where
  "truthy PNone = False"
| "truthy (PBool b) = b"
| "truthy (PInt i) = (i \<noteq> 0)"
| "truthy (PStr s) = (s \<noteq> [])"
| "truthy (PList xs) = (xs \<noteq> [])"
| "truthy (PDict d) = (d \<noteq> [])"

text \<open>\<open>k in x\<close> for a string \<open>k\<close>: key of a dictionary, element of a list, substring of a string.\<close>

fun py_contains :: "string \<Rightarrow> pyval \<Rightarrow> exn + bool" where
  "py_contains k (PDict d) = Inr (k \<in> set (map fst d))"
| "py_contains k (PList xs) = Inr (PStr k \<in> set xs)"
| "py_contains k (PStr s) = Inr (sublist k s)"
| "py_contains k PNone = Inl TypeError"
| "py_contains k (PBool b) = Inl TypeError"
| "py_contains k (PInt i) = Inl TypeError"

text \<open>\<open>for y in x\<close>: a dictionary yields its keys, a string its characters.\<close>

fun py_iter :: "pyval \<Rightarrow> exn + pyval list" where
  "py_iter (PList xs) = Inr xs"
| "py_iter (PDict d) = Inr (map (\<lambda>kv. PStr (fst kv)) d)"
| "py_iter (PStr s) = Inr (map (\<lambda>c. PStr [c]) s)"
| "py_iter PNone = Inl TypeError"
| "py_iter (PBool b) = Inl TypeError"
| "py_iter (PInt i) = Inl TypeError"

text \<open>\<open>v.upper()\<close>: only a string has the method; \<open>up\<close> is \<open>str.upper\<close>.\<close>

definition py_upper :: "(string \<Rightarrow> string) \<Rightarrow> pyval \<Rightarrow> exn + string" where
  "py_upper up v = (case v of PStr s \<Rightarrow> Inr (up s) | _ \<Rightarrow> Inl AttributeError)"

text \<open>\<open>str(n)\<close> for an integer.\<close>

fun str_nat :: "nat \<Rightarrow> string" where
  "str_nat n =
     (if n < 10 then [char_of (48 + n)] else str_nat (n div 10) @ [char_of (48 + n mod 10)])"

definition str_int :: "int \<Rightarrow> string" where
  "str_int i = (if i < 0 then CHR ''-'' # str_nat (nat (- i)) else str_nat (nat i))"

section \<open>The URA client (scrapers/ura\_scraper.py)\<close>

subsection \<open>Classification of the fetched records\<close>

definition landed_types :: "string list" where
  "landed_types = [''DETACHED'', ''TERRACE'', ''BUNGALOW'']"

text \<open>\<open>any(landed_type in property_type for landed_type in [...])\<close>\<close>

definition any_landed_type :: "string \<Rightarrow> bool" where
  "any_landed_type property_type =
     list_ex (\<lambda>landed_type. sublist landed_type property_type) landed_types"

text \<open>
  The loop \<open>for txn in all_transactions\<close> of \<open>get_all_available_transactions\<close>, with
  the two lists it appends to. \<open>txn.get('property_type', '').upper()\<close> raises
  \<open>AttributeError\<close> when the stored value is not a string.
\<close>

fun separate_by_type ::
  "(string \<Rightarrow> string) \<Rightarrow> pydict list \<Rightarrow> pydict list \<Rightarrow> pydict list \<Rightarrow>
     exn + (pydict list \<times> pydict list)" where
  "separate_by_type up [] condo_transactions landed_transactions =
     Inr (condo_transactions, landed_transactions)"
| "separate_by_type up (txn # rest) condo_transactions landed_transactions =
     (case py_upper up (dict_get txn ''property_type'' (PStr [])) of
        Inl e \<Rightarrow> Inl e
      | Inr property_type \<Rightarrow>
          if any_landed_type property_type
          then separate_by_type up rest condo_transactions (landed_transactions @ [txn])
          else separate_by_type up rest (condo_transactions @ [txn]) landed_transactions)"

text \<open>
  The specification's wording of the rule: a record is landed when its property
  type, read without regard to case, contains DETACHED, TERRACE or BUNGALOW.
\<close>

definition spec_is_landed :: "(string \<Rightarrow> string) \<Rightarrow> pydict \<Rightarrow> bool" where
  "spec_is_landed up r =
     (case dict_get r ''property_type'' (PStr []) of
        PStr s \<Rightarrow>
          sublist ''DETACHED'' (up s) \<or> sublist ''TERRACE'' (up s) \<or>
          sublist ''BUNGALOW'' (up s)
      | _ \<Rightarrow> False)"

definition has_text_property_type :: "pydict \<Rightarrow> bool" where
  "has_text_property_type r = (case dict_get r ''property_type'' (PStr []) of PStr s \<Rightarrow> True | _ \<Rightarrow> False)"

subsection \<open>Requests and the retry policy\<close>

text \<open>
  The network and the wall clock are the environment. \<open>http E n rq\<close> is what the
  \<open>n\<close>-th HTTP call of the run yields for the request \<open>rq\<close>: the parsed JSON body,
  or the exception raised by \<open>session.get\<close>, \<open>raise_for_status\<close> or \<open>response.json\<close>.
  \<open>clock E t\<close> is the text of the \<open>t\<close>-th reading of \<open>datetime.now().isoformat()\<close>,
  \<open>reachable E u\<close> says whether \<open>psycopg2.connect(u)\<close> succeeds, and
  \<open>str_upper E\<close> is the interpreter's \<open>str.upper\<close>.
  The state of the client is the number of calls and readings made so far. The
  pauses (\<open>time.sleep\<close>, the waits between attempts) are not modelled.
\<close>

record request =
  url :: string
  params :: pydict
  headers :: "(string \<times> string) list"

record env =
  http :: "nat \<Rightarrow> request \<Rightarrow> exn + pyval"
  clock :: "nat \<Rightarrow> string"
  reachable :: "string \<Rightarrow> bool"
  str_upper :: "string \<Rightarrow> string"

record net =
  http_calls :: nat
  clock_ticks :: nat

record URAScraper =
  access_key :: string
  base_url :: string

definition get_headers :: "URAScraper \<Rightarrow> (string \<times> string) list" where
  "get_headers self =
     [(''AccessKey'', access_key self),
      (''User-Agent'', ''Mozilla/5.0 (Windows NT 10.0; Win64; x64) AppleWebKit/537.36''),
      (''Accept'', ''application/json'')]"

text \<open>
  \<open>_make_request\<close> under \<open>@retry(stop=stop_after_attempt(3), ...)\<close>: the body logs and
  re-raises, the decorator calls it again after any exception, and when the
  attempts are used up it raises \<open>RetryError\<close>. The first argument counts the
  attempts left.
\<close>

fun attempts :: "env \<Rightarrow> request \<Rightarrow> nat \<Rightarrow> net \<Rightarrow> (exn + pyval) \<times> net" where
  "attempts E rq 0 w = (Inl RetryError, w)"
| "attempts E rq (Suc k) w =
     (case http E (http_calls w) rq of
        Inr body \<Rightarrow> (Inr body, w\<lparr>http_calls := Suc (http_calls w)\<rparr>)
      | Inl e \<Rightarrow> attempts E rq k (w\<lparr>http_calls := Suc (http_calls w)\<rparr>))"

definition make_request :: "env \<Rightarrow> URAScraper \<Rightarrow> pydict \<Rightarrow> net \<Rightarrow> (exn + pyval) \<times> net" where
  "make_request E self ps w =
     attempts E \<lparr>url = base_url self, params = ps, headers = get_headers self\<rparr> 3 w"

subsection \<open>Flattening one batch\<close>

text \<open>
  The record literal of \<open>get_private_residential_transactions\<close>: the four values
  read from the project, eleven read from the transaction, the batch number and
  the time of capture, in the order of the source.
\<close>

definition make_record ::
  "pyval \<Rightarrow> pyval \<Rightarrow> pyval \<Rightarrow> pyval \<Rightarrow> pydict \<Rightarrow> int \<Rightarrow> string \<Rightarrow> pydict" where
  "make_record project_name street x_coord y_coord transaction batch now =
     [(''project_name'', project_name),
      (''street'', street),
      (''x_coordinate'', x_coord),
      (''y_coordinate'', y_coord),
      (''area'', dict_get transaction ''area'' (PStr [])),
      (''floor_range'', dict_get transaction ''floorRange'' (PStr [])),
      (''no_of_units'', dict_get transaction ''noOfUnits'' (PStr [])),
      (''contract_date'', dict_get transaction ''contractDate'' (PStr [])),
      (''type_of_sale'', dict_get transaction ''typeOfSale'' (PStr [])),
      (''price'', dict_get transaction ''price'' (PStr [])),
      (''property_type'', dict_get transaction ''propertyType'' (PStr [])),
      (''district'', dict_get transaction ''district'' (PStr [])),
      (''type_of_area'', dict_get transaction ''typeOfArea'' (PStr [])),
      (''tenure'', dict_get transaction ''tenure'' (PStr [])),
      (''market_segment'', dict_get transaction ''marketSegment'' (PStr [])),
      (''batch'', PInt batch),
      (''scraped_at'', PStr now)]"

text \<open>
  The inner loop \<open>for transaction in project.get('transaction', [])\<close>. An element
  that is not a dictionary has no \<open>get\<close>: \<open>AttributeError\<close>. The state carries the
  list built so far and the clock readings made.
\<close>

fun transaction_loop ::
  "env \<Rightarrow> pydict \<Rightarrow> int \<Rightarrow> pyval list \<Rightarrow> pydict list \<Rightarrow> net \<Rightarrow> (exn + pydict list) \<times> net" where
  "transaction_loop E project batch [] transactions w = (Inr transactions, w)"
| "transaction_loop E project batch (t # ts) transactions w =
     (case t of
        PDict transaction \<Rightarrow>
          transaction_loop E project batch ts
            (transactions @
               [make_record (dict_get project ''project'' (PStr [])) (dict_get project ''street'' (PStr []))
                  (dict_get project ''x'' (PStr [])) (dict_get project ''y'' (PStr []))
                  transaction batch (clock E (clock_ticks w))])
            (w\<lparr>clock_ticks := Suc (clock_ticks w)\<rparr>)
      | _ \<Rightarrow> (Inl AttributeError, w))"

text \<open>The outer loop \<open>for project in result\<close>.\<close>

fun project_loop ::
  "env \<Rightarrow> int \<Rightarrow> pyval list \<Rightarrow> pydict list \<Rightarrow> net \<Rightarrow> (exn + pydict list) \<times> net" where
  "project_loop E batch [] transactions w = (Inr transactions, w)"
| "project_loop E batch (p # ps) transactions w =
     (case p of
        PDict project \<Rightarrow>
          (case py_iter (dict_get project ''transaction'' (PList [])) of
             Inl e \<Rightarrow> (Inl e, w)
           | Inr ts \<Rightarrow>
               (case transaction_loop E project batch ts transactions w of
                  (Inl e, w') \<Rightarrow> (Inl e, w')
                | (Inr transactions', w') \<Rightarrow> project_loop E batch ps transactions' w'))
      | _ \<Rightarrow> (Inl AttributeError, w))"

text \<open>
  The body of the \<open>try\<close> block, from the value \<open>data\<close> that \<open>_make_request\<close>
  returned: the early return on \<open>not data or 'Result' not in data\<close> (with Python's
  short-circuit \<open>or\<close>), then \<open>data.get('Result', [])\<close> and the two loops.
\<close>

definition flatten_response :: "env \<Rightarrow> int \<Rightarrow> pyval \<Rightarrow> net \<Rightarrow> (exn + pydict list) \<times> net" where
  "flatten_response E batch data w =
     (if \<not> truthy data then (Inr [], w)
      else case py_contains ''Result'' data of
             Inl e \<Rightarrow> (Inl e, w)
           | Inr False \<Rightarrow> (Inr [], w)
           | Inr True \<Rightarrow>
               (case py_get data ''Result'' (PList []) of
                  Inl e \<Rightarrow> (Inl e, w)
                | Inr result \<Rightarrow>
                    (case py_iter result of
                       Inl e \<Rightarrow> (Inl e, w)
                     | Inr projects \<Rightarrow> project_loop E batch projects [] w)))"

text \<open>The query parameters \<open>params\<close> of the request for one batch.\<close>

definition resi_transaction_params :: "int \<Rightarrow> pydict" where
  "resi_transaction_params batch =
     [(''service'', PStr ''PMI_Resi_Transaction''), (''batch'', PStr (str_int batch))]"

text \<open>
  \<open>get_private_residential_transactions\<close>: the request and the flattening run inside
  \<open>try\<close>, and the handler \<open>except Exception: ... return []\<close> turns every exception
  of \<open>exn\<close> into the empty list. The result keeps the type \<open>exn + _\<close> so that what
  reaches the caller can be stated.
\<close>

definition get_private_residential_transactions ::
  "env \<Rightarrow> URAScraper \<Rightarrow> int \<Rightarrow> net \<Rightarrow> (exn + pydict list) \<times> net" where
  "get_private_residential_transactions E self batch w =
     (case make_request E self (resi_transaction_params batch) w of
        (Inl e, w') \<Rightarrow> (Inr [], w')
      | (Inr data, w') \<Rightarrow>
          (case flatten_response E batch data w' of
             (Inl e, w'') \<Rightarrow> (Inr [], w'')
           | (Inr transactions, w'') \<Rightarrow> (Inr transactions, w'')))"

subsection \<open>Fetching every batch\<close>

text \<open>
  The loop \<open>for batch in range(1, 5)\<close> of \<open>get_all_available_transactions\<close>. It has no
  handler: an exception of the single-batch fetch would leave the loop.
\<close>

fun batch_loop ::
  "env \<Rightarrow> URAScraper \<Rightarrow> int list \<Rightarrow> pydict list \<Rightarrow> net \<Rightarrow> (exn + pydict list) \<times> net" where
  "batch_loop E self [] all_transactions w = (Inr all_transactions, w)"
| "batch_loop E self (batch # rest) all_transactions w =
     (case get_private_residential_transactions E self batch w of
        (Inl e, w') \<Rightarrow> (Inl e, w')
      | (Inr transactions, w') \<Rightarrow> batch_loop E self rest (all_transactions @ transactions) w')"

definition get_all_available_transactions ::
  "env \<Rightarrow> URAScraper \<Rightarrow> net \<Rightarrow> (exn + (pydict list \<times> pydict list)) \<times> net" where
  "get_all_available_transactions E self w =
     (case batch_loop E self [1, 2, 3, 4] [] w of
        (Inl e, w') \<Rightarrow> (Inl e, w')
      | (Inr all_transactions, w') \<Rightarrow>
          (separate_by_type (str_upper E) all_transactions [] [], w'))"

subsection \<open>Rental batches\<close>

text \<open>
  \<open>get_rental_transactions\<close> has the shape of the transaction fetch, with another
  service name, the \<open>rental\<close> list of each project and its own record literal.
\<close>

definition make_rental_record ::
  "pyval \<Rightarrow> pyval \<Rightarrow> pyval \<Rightarrow> pyval \<Rightarrow> pydict \<Rightarrow> int \<Rightarrow> string \<Rightarrow> pydict" where
  "make_rental_record project_name street x_coord y_coord rental batch now =
     [(''project_name'', project_name),
      (''street'', street),
      (''x_coordinate'', x_coord),
      (''y_coordinate'', y_coord),
      (''area_sqm'', dict_get rental ''areaSqm'' (PStr [])),
      (''rent'', dict_get rental ''rent'' (PStr [])),
      (''lease_date'', dict_get rental ''leaseDate'' (PStr [])),
      (''property_type'', dict_get rental ''propertyType'' (PStr [])),
      (''district'', dict_get rental ''district'' (PStr [])),
      (''batch'', PInt batch),
      (''scraped_at'', PStr now)]"

fun rental_loop ::
  "env \<Rightarrow> pydict \<Rightarrow> int \<Rightarrow> pyval list \<Rightarrow> pydict list \<Rightarrow> net \<Rightarrow> (exn + pydict list) \<times> net" where
  "rental_loop E project batch [] rentals w = (Inr rentals, w)"
| "rental_loop E project batch (r # rs) rentals w =
     (case r of
        PDict rental \<Rightarrow>
          rental_loop E project batch rs
            (rentals @
               [make_rental_record (dict_get project ''project'' (PStr []))
                  (dict_get project ''street'' (PStr [])) (dict_get project ''x'' (PStr []))
                  (dict_get project ''y'' (PStr [])) rental batch (clock E (clock_ticks w))])
            (w\<lparr>clock_ticks := Suc (clock_ticks w)\<rparr>)
      | _ \<Rightarrow> (Inl AttributeError, w))"

fun rental_project_loop ::
  "env \<Rightarrow> int \<Rightarrow> pyval list \<Rightarrow> pydict list \<Rightarrow> net \<Rightarrow> (exn + pydict list) \<times> net" where
  "rental_project_loop E batch [] rentals w = (Inr rentals, w)"
| "rental_project_loop E batch (p # ps) rentals w =
     (case p of
        PDict project \<Rightarrow>
          (case py_iter (dict_get project ''rental'' (PList [])) of
             Inl e \<Rightarrow> (Inl e, w)
           | Inr rs \<Rightarrow>
               (case rental_loop E project batch rs rentals w of
                  (Inl e, w') \<Rightarrow> (Inl e, w')
                | (Inr rentals', w') \<Rightarrow> rental_project_loop E batch ps rentals' w'))
      | _ \<Rightarrow> (Inl AttributeError, w))"

definition flatten_rental_response ::
  "env \<Rightarrow> int \<Rightarrow> pyval \<Rightarrow> net \<Rightarrow> (exn + pydict list) \<times> net" where
  "flatten_rental_response E batch data w =
     (if \<not> truthy data then (Inr [], w)
      else case py_contains ''Result'' data of
             Inl e \<Rightarrow> (Inl e, w)
           | Inr False \<Rightarrow> (Inr [], w)
           | Inr True \<Rightarrow>
               (case py_get data ''Result'' (PList []) of
                  Inl e \<Rightarrow> (Inl e, w)
                | Inr result \<Rightarrow>
                    (case py_iter result of
                       Inl e \<Rightarrow> (Inl e, w)
                     | Inr projects \<Rightarrow> rental_project_loop E batch projects [] w)))"

definition rental_params :: "int \<Rightarrow> pydict" where
  "rental_params batch = [(''service'', PStr ''PMI_Resi_Rental''), (''batch'', PStr (str_int batch))]"

definition get_rental_transactions ::
  "env \<Rightarrow> URAScraper \<Rightarrow> int \<Rightarrow> net \<Rightarrow> (exn + pydict list) \<times> net" where
  "get_rental_transactions E self batch w =
     (case make_request E self (rental_params batch) w of
        (Inl e, w') \<Rightarrow> (Inr [], w')
      | (Inr data, w') \<Rightarrow>
          (case flatten_rental_response E batch data w' of
             (Inl e, w'') \<Rightarrow> (Inr [], w'')
           | (Inr rentals, w'') \<Rightarrow> (Inr rentals, w'')))"

subsection \<open>What the specification says of a flattened batch\<close>

text \<open>
  A response is well formed when every project is an object whose \<open>transaction\<close>
  entry, if present, is a list of objects. \<open>flat_record_of\<close> is the specification's
  description of one flat record: each of the four project fields and the eleven
  transaction fields holds the value of its source key, or the empty string when
  the source lacks the key.
\<close>

definition is_dict :: "pyval \<Rightarrow> bool" where
  "is_dict v = (case v of PDict d \<Rightarrow> True | _ \<Rightarrow> False)"

definition the_dict :: "pyval \<Rightarrow> pydict" where
  "the_dict v = (case v of PDict d \<Rightarrow> d | _ \<Rightarrow> [])"

definition project_transactions :: "pyval \<Rightarrow> pyval list" where
  "project_transactions p =
     (case dict_get (the_dict p) ''transaction'' (PList []) of PList ts \<Rightarrow> ts | _ \<Rightarrow> [])"

definition well_formed_project :: "pyval \<Rightarrow> bool" where
  "well_formed_project p =
     (is_dict p \<and>
      (case dict_get (the_dict p) ''transaction'' (PList []) of
         PList ts \<Rightarrow> list_all is_dict ts
       | _ \<Rightarrow> False))"

definition project_fields :: "(string \<times> string) list" where
  "project_fields =
     [(''project_name'', ''project''), (''street'', ''street''),
      (''x_coordinate'', ''x''), (''y_coordinate'', ''y'')]"

definition transaction_fields :: "(string \<times> string) list" where
  "transaction_fields =
     [(''area'', ''area''), (''floor_range'', ''floorRange''), (''no_of_units'', ''noOfUnits''),
      (''contract_date'', ''contractDate''), (''type_of_sale'', ''typeOfSale''),
      (''price'', ''price''), (''property_type'', ''propertyType''), (''district'', ''district''),
      (''type_of_area'', ''typeOfArea''), (''tenure'', ''tenure''),
      (''market_segment'', ''marketSegment'')]"

definition field_or_empty :: "pydict \<Rightarrow> string \<Rightarrow> pyval" where
  "field_or_empty d k = (case map_of d k of None \<Rightarrow> PStr [] | Some v \<Rightarrow> v)"

definition flat_record_of :: "int \<Rightarrow> pydict \<Rightarrow> pyval \<times> pyval \<Rightarrow> bool" where
  "flat_record_of batch r pt =
     ((\<forall>kf \<in> set project_fields. map_of r (fst kf) = Some (field_or_empty (the_dict (fst pt)) (snd kf))) \<and>
      (\<forall>kf \<in> set transaction_fields. map_of r (fst kf) = Some (field_or_empty (the_dict (snd pt)) (snd kf))) \<and>
      map_of r ''batch'' = Some (PInt batch))"

definition project_transaction_pairs :: "pyval list \<Rightarrow> (pyval \<times> pyval) list" where
  "project_transaction_pairs projects =
     concat (map (\<lambda>p. map (Pair p) (project_transactions p)) projects)"

text \<open>The keys of the record literal, in its order.\<close>

definition record_keys :: "string list" where
  "record_keys =
     [''project_name'', ''street'', ''x_coordinate'', ''y_coordinate'',
      ''area'', ''floor_range'', ''no_of_units'', ''contract_date'', ''type_of_sale'',
      ''price'', ''property_type'', ''district'', ''type_of_area'', ''tenure'',
      ''market_segment'', ''batch'', ''scraped_at'']"

text \<open>
  The request that the single-batch fetch sends, and the situation of the claim on
  failures: the next three HTTP calls for it all raise.
\<close>

definition batch_request :: "URAScraper \<Rightarrow> int \<Rightarrow> request" where
  "batch_request self batch =
     \<lparr>url = base_url self, params = resi_transaction_params batch, headers = get_headers self\<rparr>"

definition three_failures :: "env \<Rightarrow> request \<Rightarrow> net \<Rightarrow> bool" where
  "three_failures E rq w =
     (isl (http E (http_calls w) rq) \<and> isl (http E (http_calls w + 1) rq) \<and>
      isl (http E (http_calls w + 2) rq))"

text \<open>A record that some call of the single-batch fetch has returned.\<close>

definition produced_by_fetch :: "pydict \<Rightarrow> bool" where
  "produced_by_fetch r =
     (\<exists>E self batch w recs w'.
        get_private_residential_transactions E self batch w = (Inr recs, w') \<and> r \<in> set recs)"

section \<open>The database client (db/db\_client.py)\<close>

subsection \<open>The server and the driver\<close>

text \<open>
  The client talks to PostgreSQL through psycopg2. A table is the list of its rows,
  a row the list of its column names and values. The schema of the deployment is a
  parameter: \<open>conflicts S t old new\<close> says that inserting \<open>new\<close> into table \<open>t\<close>
  would violate a uniqueness constraint against the stored row \<open>old\<close>,
  \<open>rejects S t r\<close> that the server (or the driver, adapting the values) refuses the
  row \<open>r\<close> with an error, \<open>has_column S t c\<close> that table \<open>t\<close> has a column \<open>c\<close>.

  The connection runs with \<open>autocommit = False\<close>: statements change the tables as
  the open transaction sees them (\<open>working\<close>), \<open>commit\<close> makes them durable
  (\<open>committed\<close>), \<open>rollback\<close> discards them. After a statement has failed the
  transaction refuses every statement until it is rolled back (\<open>failed_txn\<close>).
  \<open>rowcount\<close> is the attribute of the cursor, \<open>issued\<close> the statements sent so
  far, \<open>log\<close> the per-batch messages of \<open>insert_transactions\<close>.
\<close>

type_synonym row = "(string \<times> pyval) list"

type_synonym tables = "string \<Rightarrow> row list option"

record schema =
  conflicts :: "string \<Rightarrow> row \<Rightarrow> row \<Rightarrow> bool"
  rejects :: "string \<Rightarrow> row \<Rightarrow> bool"
  has_column :: "string \<Rightarrow> string \<Rightarrow> bool"

datatype sql =
    Insert string "string list" "pyval list"
  | SelectLatest string string
  | SelectCount string

datatype log_event =
    BatchInserted nat int int
  | BatchError nat int

record dbstate =
  conn_open :: bool
  committed :: tables
  working :: tables
  failed_txn :: bool
  rowcount :: int
  issued :: "sql list"
  log :: "log_event list"

definition commit :: "dbstate \<Rightarrow> dbstate" where
  "commit db =
     (if failed_txn db then db\<lparr>working := committed db, failed_txn := False\<rparr>
      else db\<lparr>committed := working db\<rparr>)"

definition rollback :: "dbstate \<Rightarrow> dbstate" where
  "rollback db = db\<lparr>working := committed db, failed_txn := False\<rparr>"

text \<open>
  \<open>INSERT INTO t (columns) VALUES (values) ON CONFLICT DO NOTHING\<close> on the tables:
  an error when the table does not exist or the row is refused, otherwise the
  tables afterwards and the number of rows the statement inserted (0 when an
  existing row conflicts, 1 otherwise).
\<close>

definition insert_or_skip :: "schema \<Rightarrow> string \<Rightarrow> row \<Rightarrow> tables \<Rightarrow> (tables \<times> int) option" where
  "insert_or_skip S table_name r T =
     (case T table_name of
        None \<Rightarrow> None
      | Some rows \<Rightarrow>
          if rejects S table_name r then None
          else if list_ex (\<lambda>old. conflicts S table_name old r) rows then Some (T, 0)
          else Some (T(table_name \<mapsto> rows @ [r]), 1))"

text \<open>One statement through the cursor; the cursor's \<open>rowcount\<close> is that of the statement.\<close>

definition execute_insert ::
  "schema \<Rightarrow> string \<Rightarrow> string list \<Rightarrow> pyval list \<Rightarrow> dbstate \<Rightarrow> (exn + unit) \<times> dbstate" where
  "execute_insert S table_name columns vals db =
     (let db1 = db\<lparr>issued := issued db @ [Insert table_name columns vals]\<rparr> in
      if failed_txn db then (Inl DatabaseError, db1)
      else case insert_or_skip S table_name (zip columns vals) (working db) of
             None \<Rightarrow> (Inl DatabaseError, db1\<lparr>failed_txn := True\<rparr>)
           | Some (T, n) \<Rightarrow> (Inr (), db1\<lparr>working := T, rowcount := n\<rparr>))"

text \<open>
  \<open>cursor.mogrify(query, args)\<close> fills the placeholders, one per column, from the
  tuple of values: too few values raise \<open>IndexError\<close>, too many \<open>TypeError\<close>;
  neither is a \<open>psycopg2.Error\<close>.
\<close>

definition mogrify :: "string list \<Rightarrow> pyval list \<Rightarrow> exn + unit" where
  "mogrify columns vals =
     (if length vals < length columns then Inl IndexError
      else if length columns < length vals then Inl TypeError
      else Inr ())"

fun mogrify_page :: "string list \<Rightarrow> pyval list list \<Rightarrow> exn + unit" where
  "mogrify_page columns [] = Inr ()"
| "mogrify_page columns (vals # rest) =
     (case mogrify columns vals of Inl e \<Rightarrow> Inl e | Inr u \<Rightarrow> mogrify_page columns rest)"

text \<open>
  The statements of one page, sent as one multi-statement command: they run in
  order, the first error ends the command, and the cursor keeps the \<open>rowcount\<close> of
  the last statement that ran.
\<close>

fun execute_page ::
  "schema \<Rightarrow> string \<Rightarrow> string list \<Rightarrow> pyval list list \<Rightarrow> dbstate \<Rightarrow> (exn + unit) \<times> dbstate" where
  "execute_page S table_name columns [] db = (Inr (), db)"
| "execute_page S table_name columns (vals # rest) db =
     (case execute_insert S table_name columns vals db of
        (Inl e, db') \<Rightarrow> (Inl e, db')
      | (Inr u, db') \<Rightarrow> execute_page S table_name columns rest db')"

text \<open>Consecutive slices of at most \<open>n\<close> elements.\<close>

function chunks_of :: "nat \<Rightarrow> 'a list \<Rightarrow> 'a list list" where
  "chunks_of n xs = (if n = 0 \<or> xs = [] then [] else take n xs # chunks_of n (drop n xs))"
  by pat_completeness auto
termination
  by (relation "measure (\<lambda>(n, xs). length xs)") auto

declare chunks_of.simps [simp del]

text \<open>
  \<open>psycopg2.extras.execute_batch(cursor, query, values)\<close> with its default page size
  of 100: each page is filled in and then executed. The driver's documentation
  says of it that afterwards \<open>cursor.rowcount\<close> will not contain a total result:
  the attribute is that of the last statement of the last page.
\<close>

fun page_loop ::
  "schema \<Rightarrow> string \<Rightarrow> string list \<Rightarrow> pyval list list list \<Rightarrow> dbstate \<Rightarrow> (exn + unit) \<times> dbstate" where
  "page_loop S table_name columns [] db = (Inr (), db)"
| "page_loop S table_name columns (page # pages) db =
     (case mogrify_page columns page of
        Inl e \<Rightarrow> (Inl e, db)
      | Inr u \<Rightarrow>
          (case execute_page S table_name columns page db of
             (Inl e, db') \<Rightarrow> (Inl e, db')
           | (Inr u', db') \<Rightarrow> page_loop S table_name columns pages db'))"

definition execute_batch ::
  "schema \<Rightarrow> string \<Rightarrow> string list \<Rightarrow> pyval list list \<Rightarrow> dbstate \<Rightarrow> (exn + unit) \<times> dbstate" where
  "execute_batch S table_name columns vals db =
     page_loop S table_name columns (chunks_of 100 vals) db"

subsection \<open>insert\_transactions\<close>

text \<open>
  The body of the \<open>try\<close> block for one slice \<open>batch\<close>. Under \<open>if batch:\<close> the
  columns are the keys of the first record, the value tuples the values of every
  record, and \<open>inserted_count\<close> is \<open>cursor.rowcount\<close> read after the commit. An
  empty slice does nothing and yields no count.
\<close>

definition insert_batch ::
  "schema \<Rightarrow> string \<Rightarrow> pydict list \<Rightarrow> dbstate \<Rightarrow> (exn + int option) \<times> dbstate" where
  "insert_batch S table_name batch db =
     (case batch of
        [] \<Rightarrow> (Inr None, db)
      | first # others \<Rightarrow>
          (case execute_batch S table_name (map fst first) (map (map snd) batch) db of
             (Inl e, db') \<Rightarrow> (Inl e, db')
           | (Inr u, db') \<Rightarrow> (Inr (Some (rowcount (commit db'))), commit db')))"

text \<open>
  The loop \<open>for i in range(0, len(transactions), batch_size)\<close>. The handler catches
  \<open>psycopg2.Error\<close> only: it logs, rolls back and goes on with the next slice; any
  other exception leaves the function.
\<close>

function chunk_loop ::
  "schema \<Rightarrow> string \<Rightarrow> pydict list \<Rightarrow> nat \<Rightarrow> nat \<Rightarrow> int \<Rightarrow> dbstate \<Rightarrow> (exn + int) \<times> dbstate" where
  "chunk_loop S table_name transactions batch_size i total_inserted db =
     (if i < length transactions \<and> 0 < batch_size then
        (let batch = take batch_size (drop i transactions);
             batch_num = i div batch_size + 1;
             total_batches = (int (length transactions) + int batch_size - 1) div int batch_size
         in case insert_batch S table_name batch db of
              (Inr None, db') \<Rightarrow>
                chunk_loop S table_name transactions batch_size (i + batch_size) total_inserted db'
            | (Inr (Some inserted_count), db') \<Rightarrow>
                chunk_loop S table_name transactions batch_size (i + batch_size)
                  (total_inserted + inserted_count)
                  (db'\<lparr>log := log db' @ [BatchInserted batch_num total_batches inserted_count]\<rparr>)
            | (Inl e, db') \<Rightarrow>
                if is_psycopg2_error e
                then chunk_loop S table_name transactions batch_size (i + batch_size)
                       total_inserted
                       (rollback (db'\<lparr>log := log db' @ [BatchError batch_num total_batches]\<rparr>))
                else (Inl e, db'))
      else (Inr total_inserted, db))"
  by pat_completeness auto
termination
  by (relation "measure (\<lambda>(S, table_name, transactions, batch_size, i, total_inserted, db).
                  length transactions - i)") auto

declare chunk_loop.simps [simp del]

text \<open>
  \<open>insert_transactions\<close>. The empty list returns before anything else is done;
  \<open>total_batches\<close> divides by \<open>batch_size\<close>; \<open>self.conn.cursor()\<close> needs an open
  connection and gives a fresh cursor (\<open>rowcount\<close> is -1); a negative step makes the
  range empty.
\<close>

definition insert_transactions ::
  "schema \<Rightarrow> string \<Rightarrow> pydict list \<Rightarrow> int \<Rightarrow> dbstate \<Rightarrow> (exn + int) \<times> dbstate" where
  "insert_transactions S table_name transactions batch_size db =
     (if transactions = [] then (Inr 0, db)
      else if batch_size = 0 then (Inl ZeroDivisionError, db)
      else if \<not> conn_open db then (Inl InterfaceError, db)
      else if batch_size < 0 then (Inr 0, db\<lparr>rowcount := - 1\<rparr>)
      else chunk_loop S table_name transactions (nat batch_size) 0 0 (db\<lparr>rowcount := - 1\<rparr>))"

subsection \<open>The read-only helpers\<close>

text \<open>
  \<open>SELECT c FROM t ORDER BY c DESC LIMIT 1\<close>. Python's \<open>None\<close> is SQL's NULL, and
  a row that was given no value for the column holds NULL. PostgreSQL sorts NULL
  as larger than every value, so in descending order the NULLs come first; the
  other values follow by the order of the column's type, which is the parameter
  \<open>ord_key\<close>. \<open>fetchone()\<close> gives the first row or nothing. A query needs a cursor
  (an open connection), a transaction that has not failed, the table and the
  column.
\<close>

definition order_desc :: "(pyval \<Rightarrow> 'k::linorder) \<Rightarrow> pyval list \<Rightarrow> pyval list" where
  "order_desc ord_key vs =
     filter (\<lambda>v. v = PNone) vs @ rev (sort_key ord_key (filter (\<lambda>v. v \<noteq> PNone) vs))"

definition column_values :: "string \<Rightarrow> row list \<Rightarrow> pyval list" where
  "column_values c rows = map (\<lambda>r. dict_get r c PNone) rows"

definition select_latest ::
  "schema \<Rightarrow> (pyval \<Rightarrow> 'k::linorder) \<Rightarrow> string \<Rightarrow> string \<Rightarrow> dbstate \<Rightarrow>
     (exn + pyval option) \<times> dbstate" where
  "select_latest S ord_key table_name date_column db =
     (if \<not> conn_open db then (Inl InterfaceError, db)
      else if failed_txn db
        then (Inl DatabaseError, db\<lparr>issued := issued db @ [SelectLatest table_name date_column]\<rparr>)
      else case working db table_name of
             None \<Rightarrow>
               (Inl DatabaseError,
                db\<lparr>issued := issued db @ [SelectLatest table_name date_column], failed_txn := True\<rparr>)
           | Some rows \<Rightarrow>
               if \<not> has_column S table_name date_column
               then (Inl DatabaseError,
                     db\<lparr>issued := issued db @ [SelectLatest table_name date_column],
                        failed_txn := True\<rparr>)
               else (Inr (case order_desc ord_key (column_values date_column rows) of
                            [] \<Rightarrow> None
                          | v # vs \<Rightarrow> Some v),
                     db\<lparr>issued := issued db @ [SelectLatest table_name date_column]\<rparr>))"

text \<open>
  \<open>get_latest_transaction_date\<close>: \<open>result\<close> is \<open>None\<close> or a one-element tuple, which
  is true whatever it holds, and then \<open>result[0]\<close> is returned. The handler turns a
  \<open>psycopg2.Error\<close> into \<open>None\<close>.
\<close>

definition get_latest_transaction_date ::
  "schema \<Rightarrow> (pyval \<Rightarrow> 'k::linorder) \<Rightarrow> string \<Rightarrow> string \<Rightarrow> dbstate \<Rightarrow> (exn + pyval) \<times> dbstate" where
  "get_latest_transaction_date S ord_key table_name date_column db =
     (case select_latest S ord_key table_name date_column db of
        (Inl e, db') \<Rightarrow> if is_psycopg2_error e then (Inr PNone, db') else (Inl e, db')
      | (Inr None, db') \<Rightarrow> (Inr PNone, db')
      | (Inr (Some latest_date), db') \<Rightarrow> (Inr latest_date, db'))"

text \<open>\<open>SELECT COUNT(*) FROM t\<close> and \<open>get_transaction_count\<close>.\<close>

definition select_count :: "string \<Rightarrow> dbstate \<Rightarrow> (exn + int) \<times> dbstate" where
  "select_count table_name db =
     (if \<not> conn_open db then (Inl InterfaceError, db)
      else if failed_txn db
        then (Inl DatabaseError, db\<lparr>issued := issued db @ [SelectCount table_name]\<rparr>)
      else case working db table_name of
             None \<Rightarrow>
               (Inl DatabaseError,
                db\<lparr>issued := issued db @ [SelectCount table_name], failed_txn := True\<rparr>)
           | Some rows \<Rightarrow>
               (Inr (int (length rows)), db\<lparr>issued := issued db @ [SelectCount table_name]\<rparr>))"

definition get_transaction_count :: "string \<Rightarrow> dbstate \<Rightarrow> (exn + int) \<times> dbstate" where
  "get_transaction_count table_name db =
     (case select_count table_name db of
        (Inl e, db') \<Rightarrow> if is_psycopg2_error e then (Inr 0, db') else (Inl e, db')
      | (Inr row_count, db') \<Rightarrow> (Inr row_count, db'))"

subsection \<open>Opening and closing the connection\<close>

definition connect :: "env \<Rightarrow> string \<Rightarrow> dbstate \<Rightarrow> (exn + unit) \<times> dbstate" where
  "connect E database_url db =
     (if reachable E database_url
      then (Inr (), db\<lparr>conn_open := True, working := committed db, failed_txn := False\<rparr>)
      else (Inl DatabaseError, db))"

definition close :: "dbstate \<Rightarrow> dbstate" where
  "close db =
     (if conn_open db then db\<lparr>conn_open := False, working := committed db, failed_txn := False\<rparr>
      else db)"

subsection \<open>What the specification says of a batch insert\<close>

text \<open>
  The specification's account of \<open>insertBatch\<close>, on the tables alone. The rows of
  a chunk are inserted or skipped in order under the columns of its first record,
  and the chunk takes effect as a whole or, when a row is refused, not at all
  (\<open>chunk_effect\<close>; the list holds the count of each statement, 1 for a row
  inserted and 0 for a row skipped). Chunks are handled one after the other: a
  failing chunk leaves the tables as they were and adds nothing, a successful one
  adds the number of rows it inserted (\<open>isolated_chunks\<close>).
\<close>

fun apply_rows :: "schema \<Rightarrow> string \<Rightarrow> row list \<Rightarrow> tables \<Rightarrow> (tables \<times> int list) option" where
  "apply_rows S table_name [] T = Some (T, [])"
| "apply_rows S table_name (r # rs) T =
     (case insert_or_skip S table_name r T of
        None \<Rightarrow> None
      | Some (T', n) \<Rightarrow>
          (case apply_rows S table_name rs T' of
             None \<Rightarrow> None
           | Some (T'', ns) \<Rightarrow> Some (T'', n # ns)))"

definition chunk_rows :: "pydict list \<Rightarrow> row list" where
  "chunk_rows c = map (\<lambda>txn. zip (map fst (hd c)) (map snd txn)) c"

definition chunk_effect :: "schema \<Rightarrow> string \<Rightarrow> pydict list \<Rightarrow> tables \<Rightarrow> (tables \<times> int list) option" where
  "chunk_effect S table_name c T = apply_rows S table_name (chunk_rows c) T"

fun isolated_chunks :: "schema \<Rightarrow> string \<Rightarrow> pydict list list \<Rightarrow> tables \<Rightarrow> int \<times> tables" where
  "isolated_chunks S table_name [] T = (0, T)"
| "isolated_chunks S table_name (c # cs) T =
     (case chunk_effect S table_name c T of
        None \<Rightarrow> isolated_chunks S table_name cs T
      | Some (T', ns) \<Rightarrow>
          (case isolated_chunks S table_name cs T' of
             (rest_total, T'') \<Rightarrow> (sum_list ns + rest_total, T'')))"

text \<open>
  What the code adds up instead, for comparison: the same walk over the chunks,
  with the \<open>rowcount\<close> of the last statement as the count of a successful chunk.
\<close>

fun reported_chunks :: "schema \<Rightarrow> string \<Rightarrow> pydict list list \<Rightarrow> tables \<Rightarrow> int \<times> tables" where
  "reported_chunks S table_name [] T = (0, T)"
| "reported_chunks S table_name (c # cs) T =
     (case chunk_effect S table_name c T of
        None \<Rightarrow> reported_chunks S table_name cs T
      | Some (T', ns) \<Rightarrow>
          (case reported_chunks S table_name cs T' of
             (rest_total, T'') \<Rightarrow> (last ns + rest_total, T'')))"

fun event_batch_num :: "log_event \<Rightarrow> nat" where
  "event_batch_num (BatchInserted k n c) = k"
| "event_batch_num (BatchError k n) = k"

text \<open>Two states of the client that differ only inside the open transaction.\<close>

definition same_session :: "dbstate \<Rightarrow> dbstate \<Rightarrow> bool" where
  "same_session db db' =
     (conn_open db' = conn_open db \<and> committed db' = committed db \<and> log db' = log db)"

section \<open>The pipeline (main.py, config.py)\<close>

text \<open>
  The configuration holds what \<open>os.getenv\<close> returned for the two required
  variables. \<open>validate\<close> raises \<open>ValueError\<close> when one is unset or empty.
\<close>

record config =
  DATABASE_URL :: "string option"
  URA_ACCESS_KEY :: "string option"

definition URA_BASE_URL :: string where
  "URA_BASE_URL = ''https://www.ura.gov.sg/uraDataService/invokeUraDS''"

definition CONDO_TABLE :: string where
  "CONDO_TABLE = ''condo_transactions''"

definition LANDED_TABLE :: string where
  "LANDED_TABLE = ''landed_transactions''"

definition not_set :: "string option \<Rightarrow> bool" where
  "not_set var_value = (case var_value of None \<Rightarrow> True | Some s \<Rightarrow> s = [])"

definition validate :: "config \<Rightarrow> exn + unit" where
  "validate cfg =
     (let missing = filter (\<lambda>var. not_set (snd var))
                      [(''DATABASE_URL'', DATABASE_URL cfg), (''URA_ACCESS_KEY'', URA_ACCESS_KEY cfg)]
      in if missing \<noteq> [] then Inl ValueError else Inr ())"

definition env_value :: "string option \<Rightarrow> string" where
  "env_value var_value = (case var_value of None \<Rightarrow> [] | Some s \<Rightarrow> s)"

record world =
  w_net :: net
  w_db :: dbstate

record arguments =
  include_rentals :: bool
  stats_only :: bool

text \<open>The loop over the rental batches in \<open>scrape_and_store_ura_data\<close>.\<close>

fun rental_batch_loop ::
  "env \<Rightarrow> URAScraper \<Rightarrow> int list \<Rightarrow> pydict list \<Rightarrow> net \<Rightarrow> (exn + pydict list) \<times> net" where
  "rental_batch_loop E scraper [] all_rentals w = (Inr all_rentals, w)"
| "rental_batch_loop E scraper (batch # rest) all_rentals w =
     (case get_rental_transactions E scraper batch w of
        (Inl e, w') \<Rightarrow> (Inl e, w')
      | (Inr rentals, w') \<Rightarrow> rental_batch_loop E scraper rest (all_rentals @ rentals) w')"

text \<open>
  \<open>scrape_and_store_ura_data\<close>: fetch and classify, store the condo records and the
  landed records when there are any, fetch the rentals when asked (they are not
  stored). Its handler logs and raises again.
\<close>

definition store_if_any ::
  "schema \<Rightarrow> string \<Rightarrow> pydict list \<Rightarrow> dbstate \<Rightarrow> (exn + int) \<times> dbstate" where
  "store_if_any S table_name txns db =
     (if txns \<noteq> [] then insert_transactions S table_name txns 1000 db else (Inr 0, db))"

definition scrape_and_store_ura_data ::
  "env \<Rightarrow> schema \<Rightarrow> URAScraper \<Rightarrow> bool \<Rightarrow> world \<Rightarrow> (exn + unit) \<times> world" where
  "scrape_and_store_ura_data E S scraper with_rentals w =
     (case get_all_available_transactions E scraper (w_net w) of
        (Inl e, n1) \<Rightarrow> (Inl e, w\<lparr>w_net := n1\<rparr>)
      | (Inr (condo_txns, landed_txns), n1) \<Rightarrow>
          (case store_if_any S CONDO_TABLE condo_txns (w_db w) of
             (Inl e, d1) \<Rightarrow> (Inl e, \<lparr>w_net = n1, w_db = d1\<rparr>)
           | (Inr condo_inserted, d1) \<Rightarrow>
               (case store_if_any S LANDED_TABLE landed_txns d1 of
                  (Inl e, d2) \<Rightarrow> (Inl e, \<lparr>w_net = n1, w_db = d2\<rparr>)
                | (Inr landed_inserted, d2) \<Rightarrow>
                    if with_rentals
                    then (case rental_batch_loop E scraper [1, 2, 3, 4] [] n1 of
                            (Inl e, n2) \<Rightarrow> (Inl e, \<lparr>w_net = n2, w_db = d2\<rparr>)
                          | (Inr all_rentals, n2) \<Rightarrow> (Inr (), \<lparr>w_net = n2, w_db = d2\<rparr>))
                    else (Inr (), \<lparr>w_net = n1, w_db = d2\<rparr>))))"

text \<open>
  \<open>show_statistics\<close>: the count and the latest date of each table, only logged. The
  handler \<open>except Exception\<close> ends the function quietly at the first exception.
\<close>

definition table_statistics ::
  "schema \<Rightarrow> (pyval \<Rightarrow> 'k::linorder) \<Rightarrow> string \<Rightarrow> dbstate \<Rightarrow> (exn + unit) \<times> dbstate" where
  "table_statistics S ord_key table_name db =
     (case get_transaction_count table_name db of
        (Inl e, d1) \<Rightarrow> (Inl e, d1)
      | (Inr row_count, d1) \<Rightarrow>
          (case get_latest_transaction_date S ord_key table_name ''contract_date'' d1 of
             (Inl e, d2) \<Rightarrow> (Inl e, d2)
           | (Inr latest, d2) \<Rightarrow> (Inr (), d2)))"

definition show_statistics ::
  "schema \<Rightarrow> (pyval \<Rightarrow> 'k::linorder) \<Rightarrow> dbstate \<Rightarrow> (exn + unit) \<times> dbstate" where
  "show_statistics S ord_key db =
     (case table_statistics S ord_key CONDO_TABLE db of
        (Inl e, d1) \<Rightarrow> (Inr (), d1)
      | (Inr u, d1) \<Rightarrow>
          (case table_statistics S ord_key LANDED_TABLE d1 of
             (Inl e, d2) \<Rightarrow> (Inr (), d2)
           | (Inr u', d2) \<Rightarrow> (Inr (), d2)))"

text \<open>
  The body of the \<open>try\<close> block of \<open>main\<close> after the clients exist, up to and
  including \<open>db_client.close()\<close>.
\<close>

definition run_pipeline ::
  "env \<Rightarrow> schema \<Rightarrow> (pyval \<Rightarrow> 'k::linorder) \<Rightarrow> URAScraper \<Rightarrow> arguments \<Rightarrow> world \<Rightarrow>
     (exn + unit) \<times> world" where
  "run_pipeline E S ord_key scraper args w =
     (case (if stats_only args then (Inr (), w)
            else scrape_and_store_ura_data E S scraper (include_rentals args) w) of
        (Inl e, w1) \<Rightarrow> (Inl e, w1)
      | (Inr u, w1) \<Rightarrow>
          (case show_statistics S ord_key (w_db w1) of
             (Inl e, d2) \<Rightarrow> (Inl e, w1\<lparr>w_db := d2\<rparr>)
           | (Inr u', d2) \<Rightarrow> (Inr (), w1\<lparr>w_db := close d2\<rparr>)))"

text \<open>
  \<open>main\<close>: the exit code and the world afterwards. Both handlers (\<open>ValueError\<close>,
  then \<open>Exception\<close>) log and return 1.
\<close>

definition main ::
  "env \<Rightarrow> schema \<Rightarrow> (pyval \<Rightarrow> 'k::linorder) \<Rightarrow> config \<Rightarrow> arguments \<Rightarrow> world \<Rightarrow> int \<times> world" where
  "main E S ord_key cfg args w =
     (case validate cfg of
        Inl e \<Rightarrow> (1, w)
      | Inr u \<Rightarrow>
          (let scraper = \<lparr>access_key = env_value (URA_ACCESS_KEY cfg), base_url = URA_BASE_URL\<rparr> in
           case connect E (env_value (DATABASE_URL cfg)) (w_db w) of
             (Inl e, d) \<Rightarrow> (1, w\<lparr>w_db := d\<rparr>)
           | (Inr u', d) \<Rightarrow>
               (case run_pipeline E S ord_key scraper args (w\<lparr>w_db := d\<rparr>) of
                  (Inl e, w') \<Rightarrow> (1, w')
                | (Inr u'', w') \<Rightarrow> (0, w'))))"

section \<open>Sample inputs\<close>

text \<open>
  The upper-casing of the ASCII letters, which is what \<open>str.upper\<close> does on text
  made of ASCII characters only, as all the text of the samples is.
\<close>

definition ascii_upper_char :: "char \<Rightarrow> char" where
  "ascii_upper_char c =
     (let n = (of_char c :: nat) in if 97 \<le> n \<and> n \<le> 122 then char_of (n - 32) else c)"

definition ascii_upper :: "string \<Rightarrow> string" where
  "ascii_upper s = map ascii_upper_char s"

text \<open>
  A network on which every call times out, and the response of the specification's
  scenario (project Skyline on Orchard Rd with one condominium sale).
\<close>

definition failing_env :: env where
  "failing_env =
     \<lparr>http = (\<lambda>n rq. Inl RequestException), clock = (\<lambda>t. ''2024-01-15T00:00:00''),
      reachable = (\<lambda>u. True), str_upper = ascii_upper\<rparr>"

definition scraper0 :: URAScraper where
  "scraper0 = \<lparr>access_key = ''key'', base_url = ''https://www.ura.gov.sg/uraDataService/invokeUraDS''\<rparr>"

definition net0 :: net where
  "net0 = \<lparr>http_calls = 0, clock_ticks = 0\<rparr>"

definition skyline_projects :: "pyval list" where
  "skyline_projects =
     [PDict [(''project'', PStr ''Skyline''), (''street'', PStr ''Orchard Rd''),
             (''x'', PStr ''123''), (''y'', PStr ''456''),
             (''transaction'',
                PList [PDict [(''area'', PStr ''90''), (''contractDate'', PStr ''20240115''),
                              (''price'', PStr ''1800000''),
                              (''propertyType'', PStr ''Condominium'')]])]]"

definition skyline_response :: pydict where
  "skyline_response = [(''Result'', PList skyline_projects)]"

definition skyline_env :: env where
  "skyline_env =
     \<lparr>http = (\<lambda>n rq. Inr (PDict skyline_response)), clock = (\<lambda>t. ''2024-01-15T00:00:00''),
      reachable = (\<lambda>u. True), str_upper = ascii_upper\<rparr>"

definition skyline_record :: pydict where
  "skyline_record =
     [(''project_name'', PStr ''Skyline''), (''street'', PStr ''Orchard Rd''),
      (''x_coordinate'', PStr ''123''), (''y_coordinate'', PStr ''456''),
      (''area'', PStr ''90''), (''floor_range'', PStr []), (''no_of_units'', PStr []),
      (''contract_date'', PStr ''20240115''), (''type_of_sale'', PStr []),
      (''price'', PStr ''1800000''), (''property_type'', PStr ''Condominium''),
      (''district'', PStr []), (''type_of_area'', PStr []), (''tenure'', PStr []),
      (''market_segment'', PStr []), (''batch'', PInt 1),
      (''scraped_at'', PStr ''2024-01-15T00:00:00'')]"

text \<open>
  A schema whose uniqueness constraint covers the whole row, one that also refuses
  a particular row, a connected client with the two tables empty, and a few
  one-column records.
\<close>

definition unique_rows :: schema where
  "unique_rows = \<lparr>conflicts = (\<lambda>t old new. old = new), rejects = (\<lambda>t r. False), has_column = (\<lambda>t c. True)\<rparr>"

definition refusing_schema :: schema where
  "refusing_schema =
     \<lparr>conflicts = (\<lambda>t old new. old = new),
      rejects = (\<lambda>t r. r = [(''price'', PStr ''bad'')]),
      has_column = (\<lambda>t c. True)\<rparr>"

definition empty_tables :: tables where
  "empty_tables = (\<lambda>t. if t = ''condo_transactions'' \<or> t = ''landed_transactions'' then Some [] else None)"

definition db0 :: dbstate where
  "db0 = \<lparr>conn_open = True, committed = empty_tables, working = empty_tables, failed_txn = False,
          rowcount = - 1, issued = [], log = []\<rparr>"

definition rec1 :: pydict where "rec1 = [(''price'', PStr ''1'')]"
definition rec2 :: pydict where "rec2 = [(''price'', PStr ''2'')]"
definition rec_bad :: pydict where "rec_bad = [(''price'', PStr ''bad'')]"

definition rec3 :: pydict where "rec3 = [(''price'', PStr ''3'')]"

definition first_call :: "(exn + int) \<times> dbstate" where
  "first_call = insert_transactions unique_rows ''condo_transactions'' [rec1, rec2, rec3] 1000 db0"

definition second_call :: "(exn + int) \<times> dbstate" where
  "second_call =
     insert_transactions unique_rows ''condo_transactions'' [rec1, rec2, rec3] 1000 (snd first_call)"

text \<open>
  A sort key that reads the digits of a date, a table with the three dates of the
  specification's example, the same table with a NULL date added, a response
  whose property type is null, and a valid configuration for a fetching run.
\<close>

definition date_number :: "pyval \<Rightarrow> int" where
  "date_number v =
     (case v of
        PStr s \<Rightarrow>
          foldl (\<lambda>n c. if 48 \<le> (of_char c :: int) \<and> (of_char c :: int) \<le> 57
                       then 10 * n + ((of_char c :: int) - 48) else n) 0 s
      | _ \<Rightarrow> 0)"

definition dated_rows :: "row list" where
  "dated_rows =
     [[(''contract_date'', PStr ''2023-01-01'')],
      [(''contract_date'', PStr ''2024-06-15'')],
      [(''contract_date'', PStr ''2023-11-02'')]]"

definition dated_db :: dbstate where
  "dated_db =
     \<lparr>conn_open = True, committed = empty_tables(''condo_transactions'' \<mapsto> dated_rows),
      working = empty_tables(''condo_transactions'' \<mapsto> dated_rows), failed_txn = False,
      rowcount = - 1, issued = [], log = []\<rparr>"

definition null_dated_db :: dbstate where
  "null_dated_db =
     \<lparr>conn_open = True,
      committed = empty_tables(''condo_transactions'' \<mapsto> [(''contract_date'', PNone)] # dated_rows),
      working = empty_tables(''condo_transactions'' \<mapsto> [(''contract_date'', PNone)] # dated_rows),
      failed_txn = False, rowcount = - 1, issued = [], log = []\<rparr>"

definition null_type_response :: pydict where
  "null_type_response =
     [(''Result'',
       PList [PDict [(''project'', PStr ''Skyline''), (''street'', PStr ''Orchard Rd''),
                     (''transaction'',
                        PList [PDict [(''price'', PStr ''1800000''), (''propertyType'', PNone)]])]])]"

definition null_type_record :: pydict where
  "null_type_record =
     [(''project_name'', PStr ''Skyline''), (''street'', PStr ''Orchard Rd''),
      (''x_coordinate'', PStr []), (''y_coordinate'', PStr []),
      (''area'', PStr []), (''floor_range'', PStr []), (''no_of_units'', PStr []),
      (''contract_date'', PStr []), (''type_of_sale'', PStr []),
      (''price'', PStr ''1800000''), (''property_type'', PNone),
      (''district'', PStr []), (''type_of_area'', PStr []), (''tenure'', PStr []),
      (''market_segment'', PStr []), (''batch'', PInt 1),
      (''scraped_at'', PStr ''2024-01-15T00:00:00'')]"

definition null_type_env :: env where
  "null_type_env =
     \<lparr>http = (\<lambda>n rq. Inr (PDict null_type_response)), clock = (\<lambda>t. ''2024-01-15T00:00:00''),
      reachable = (\<lambda>u. True), str_upper = ascii_upper\<rparr>"

definition config0 :: config where
  "config0 = \<lparr>DATABASE_URL = Some ''postgresql://localhost/property'', URA_ACCESS_KEY = Some ''key''\<rparr>"

definition fetch_and_store :: arguments where
  "fetch_and_store = \<lparr>include_rentals = False, stats_only = False\<rparr>"

definition world0 :: world where
  "world0 = \<lparr>w_net = net0, w_db = db0\<lparr>conn_open := False\<rparr>\<rparr>"

section \<open>Properties\<close>

lemma separate_by_type_filter:
  assumes "list_all has_text_property_type txns"
  shows "separate_by_type up txns condo landed =
           Inr (condo @ filter (\<lambda>r. \<not> spec_is_landed up r) txns,
                landed @ filter (spec_is_landed up) txns)"
  using assms
proof (induction txns arbitrary: condo landed)
  case Nil
  then show ?case by simp
next
  case (Cons txn rest)
  from Cons.prems obtain s where s: "dict_get txn ''property_type'' (PStr []) = PStr s"
    by (auto simp: has_text_property_type_def split: pyval.splits)
  have landed: "spec_is_landed up txn = any_landed_type (up s)"
    by (simp add: spec_is_landed_def s any_landed_type_def landed_types_def)
  from Cons.prems have rest: "list_all has_text_property_type rest" by simp
  show ?case
    by (simp add: s py_upper_def landed Cons.IH [OF rest])
qed

text \<open>
  On records whose property type is text (an absent one counts as the empty
  string) the classification loop is the partition the specification describes,
  whatever \<open>str.upper\<close> is: the landed list holds, in their order, the records
  whose uppercased \<open>property_type\<close> contains DETACHED, TERRACE or BUNGALOW, the condo
  list holds all the others, and together they hold every record once.
\<close>

lemma classification_partitions_text_records:
  assumes "list_all has_text_property_type txns"
  shows "\<exists>condo landed.
           separate_by_type up txns [] [] = Inr (condo, landed) \<and>
           landed = filter (spec_is_landed up) txns \<and>
           condo = filter (\<lambda>r. \<not> spec_is_landed up r) txns \<and>
           mset condo + mset landed = mset txns \<and>
           set condo \<inter> set landed = {}"
proof -
  have run: "separate_by_type up txns [] [] =
               Inr (filter (\<lambda>r. \<not> spec_is_landed up r) txns, filter (spec_is_landed up) txns)"
    using separate_by_type_filter [OF assms, of up "[]" "[]"] by simp
  have "mset (filter (\<lambda>r. \<not> spec_is_landed up r) txns) + mset (filter (spec_is_landed up) txns) =
          mset txns"
    by (induction txns) simp_all
  moreover have "set (filter (\<lambda>r. \<not> spec_is_landed up r) txns) \<inter>
                   set (filter (spec_is_landed up) txns) = {}"
    by auto
  ultimately show ?thesis using run by simp
qed

text \<open>The scenario of the specification: a condominium and a semi-detached house.\<close>

lemma classification_scenario:
  "separate_by_type ascii_upper
     [[(''property_type'', PStr ''Condominium'')],
      [(''property_type'', PStr ''Semi-Detached House'')]] [] [] =
   Inr ([[(''property_type'', PStr ''Condominium'')]],
        [[(''property_type'', PStr ''Semi-Detached House'')]])"
  by code_simp

text \<open>
  A property type that is not text makes the whole classification raise, also
  after records that were already put into a list.
\<close>

lemma classification_raises_on_null_type:
  assumes "list_all has_text_property_type before"
  shows "separate_by_type up (before @ [(''property_type'', PNone)] # rest) condo landed =
           Inl AttributeError"
  using assms
proof (induction before arbitrary: condo landed)
  case Nil
  show ?case by (simp add: py_upper_def dict_get_def)
next
  case (Cons txn before)
  from Cons.prems obtain s where s: "dict_get txn ''property_type'' (PStr []) = PStr s"
    by (auto simp: has_text_property_type_def split: pyval.splits)
  from Cons.prems have "list_all has_text_property_type before" by simp
  from Cons.IH [OF this] show ?case by (simp add: s py_upper_def)
qed

text \<open>
  Claim C1 at a failing input. The API sends a transaction whose \<open>propertyType\<close> is
  null, the fetch keeps the null in the flat record, and the classification step
  calls \<open>upper\<close> on it: \<open>AttributeError\<close>. On the list of a condominium record and
  that record neither is put into a list, and \<open>get_all_available_transactions\<close>
  raises, where the claim promises every record in exactly one list.
\<close>

theorem classification_raises_on_fetched_null_type:
  "fst (get_private_residential_transactions null_type_env scraper0 1 net0) =
     Inr [null_type_record] \<and>
   separate_by_type ascii_upper [skyline_record, null_type_record] [] [] = Inl AttributeError \<and>
   fst (get_all_available_transactions null_type_env scraper0 net0) = Inl AttributeError"
  by code_simp

lemma make_record_flat:
  "flat_record_of batch
     (make_record (dict_get p ''project'' (PStr [])) (dict_get p ''street'' (PStr []))
        (dict_get p ''x'' (PStr [])) (dict_get p ''y'' (PStr [])) t batch now) (PDict p, PDict t)"
  by (simp add: flat_record_of_def make_record_def project_fields_def transaction_fields_def
      field_or_empty_def dict_get_def the_dict_def)

lemma transaction_loop_ok:
  assumes "list_all is_dict ts"
  shows "\<exists>recs. transaction_loop E p batch ts acc w =
           (Inr (acc @ recs), w\<lparr>clock_ticks := clock_ticks w + length ts\<rparr>) \<and>
         list_all2 (flat_record_of batch) recs (map (Pair (PDict p)) ts)"
  using assms
proof (induction ts arbitrary: acc w)
  case Nil
  then show ?case by simp
next
  case (Cons t ts)
  from Cons.prems have "is_dict t" and rest: "list_all is_dict ts" by simp_all
  then obtain d where d: "t = PDict d"
    by (cases t) (simp_all add: is_dict_def)
  let ?r = "make_record (dict_get p ''project'' (PStr [])) (dict_get p ''street'' (PStr []))
        (dict_get p ''x'' (PStr [])) (dict_get p ''y'' (PStr [])) d batch (clock E (clock_ticks w))"
  from Cons.IH [OF rest, of "acc @ [?r]" "w\<lparr>clock_ticks := Suc (clock_ticks w)\<rparr>"]
  obtain recs where
    run: "transaction_loop E p batch ts (acc @ [?r]) (w\<lparr>clock_ticks := Suc (clock_ticks w)\<rparr>) =
            (Inr ((acc @ [?r]) @ recs), w\<lparr>clock_ticks := Suc (clock_ticks w) + length ts\<rparr>)"
    and rel: "list_all2 (flat_record_of batch) recs (map (Pair (PDict p)) ts)"
    by auto
  have "transaction_loop E p batch (t # ts) acc w =
          (Inr (acc @ (?r # recs)), w\<lparr>clock_ticks := clock_ticks w + length (t # ts)\<rparr>)"
    using run by (simp add: d)
  moreover have "list_all2 (flat_record_of batch) (?r # recs) (map (Pair (PDict p)) (t # ts))"
    using rel make_record_flat [of batch p d] by (simp add: d)
  ultimately show ?case by blast
qed

lemma project_loop_ok:
  assumes "list_all well_formed_project ps"
  shows "\<exists>recs w'. project_loop E batch ps acc w = (Inr (acc @ recs), w') \<and>
         list_all2 (flat_record_of batch) recs (project_transaction_pairs ps)"
  using assms
proof (induction ps arbitrary: acc w)
  case Nil
  then show ?case by (simp add: project_transaction_pairs_def)
next
  case (Cons p ps)
  from Cons.prems have wf: "well_formed_project p" and rest: "list_all well_formed_project ps"
    by simp_all
  from wf obtain d where p: "p = PDict d"
    by (cases p) (simp_all add: well_formed_project_def is_dict_def)
  from wf obtain ts where ts: "dict_get d ''transaction'' (PList []) = PList ts"
    and dicts: "list_all is_dict ts"
    by (cases "dict_get d ''transaction'' (PList [])")
       (simp_all add: well_formed_project_def p the_dict_def)
  from transaction_loop_ok [OF dicts, of E d batch acc w] obtain recs1 where
    r1: "transaction_loop E d batch ts acc w =
           (Inr (acc @ recs1), w\<lparr>clock_ticks := clock_ticks w + length ts\<rparr>)"
    and rel1: "list_all2 (flat_record_of batch) recs1 (map (Pair (PDict d)) ts)"
    by blast
  from Cons.IH [OF rest, of "acc @ recs1" "w\<lparr>clock_ticks := clock_ticks w + length ts\<rparr>"]
  obtain recs2 w' where
    r2: "project_loop E batch ps (acc @ recs1) (w\<lparr>clock_ticks := clock_ticks w + length ts\<rparr>) =
           (Inr ((acc @ recs1) @ recs2), w')"
    and rel2: "list_all2 (flat_record_of batch) recs2 (project_transaction_pairs ps)"
    by blast
  have "project_loop E batch (p # ps) acc w = (Inr (acc @ (recs1 @ recs2)), w')"
    using r1 r2 by (simp add: p ts)
  moreover have "project_transaction_pairs (p # ps) =
                   map (Pair (PDict d)) ts @ project_transaction_pairs ps"
    by (simp add: project_transaction_pairs_def project_transactions_def p ts the_dict_def)
  then have "list_all2 (flat_record_of batch) (recs1 @ recs2) (project_transaction_pairs (p # ps))"
    using rel1 rel2 by (simp add: list_all2_appendI)
  ultimately show ?case by blast
qed

lemma length_pairs:
  "length (project_transaction_pairs ps) = sum_list (map (\<lambda>p. length (project_transactions p)) ps)"
  by (induction ps) (simp_all add: project_transaction_pairs_def)

lemma flatten_response_ok:
  assumes "map_of d ''Result'' = Some (PList projects)"
    and "list_all well_formed_project projects"
  shows "\<exists>recs w'. flatten_response E batch (PDict d) w = (Inr recs, w') \<and>
         list_all2 (flat_record_of batch) recs (project_transaction_pairs projects)"
proof -
  from assms(1) have k: "''Result'' \<in> fst ` set d" and ne: "d \<noteq> []"
    by (auto dest: map_of_SomeD intro: rev_image_eqI)
  from project_loop_ok [OF assms(2), of E batch "[]" w] obtain recs w' where
    "project_loop E batch projects [] w = (Inr recs, w')"
    "list_all2 (flat_record_of batch) recs (project_transaction_pairs projects)"
    by auto
  then show ?thesis
    using k ne assms(1) by (simp add: flatten_response_def py_get_def dict_get_def)
qed


lemma attempts_all_fail:
  assumes "\<forall>k<n. \<exists>e. http E (http_calls w + k) rq = Inl e"
  shows "attempts E rq n w = (Inl RetryError, w\<lparr>http_calls := http_calls w + n\<rparr>)"
  using assms
proof (induction n arbitrary: w)
  case 0
  then show ?case by simp
next
  case (Suc n)
  from Suc.prems obtain e where e: "http E (http_calls w) rq = Inl e"
    by (metis add.right_neutral zero_less_Suc)
  have "\<forall>k<n. \<exists>e. http E (http_calls (w\<lparr>http_calls := Suc (http_calls w)\<rparr>) + k) rq = Inl e"
  proof (intro allI impI)
    fix k assume "k < n"
    then have "Suc k < Suc n" by simp
    with Suc.prems have "\<exists>e. http E (http_calls w + Suc k) rq = Inl e" by blast
    then show "\<exists>e. http E (http_calls (w\<lparr>http_calls := Suc (http_calls w)\<rparr>) + k) rq = Inl e"
      by simp
  qed
  from Suc.IH [OF this] show ?case by (simp add: e)
qed

text \<open>Whatever the network does, the single-batch fetch returns a list.\<close>

lemma get_private_never_raises:
  "\<exists>recs w'. get_private_residential_transactions E self batch w = (Inr recs, w')"
  by (auto simp: get_private_residential_transactions_def split: prod.splits sum.splits)

lemma keys_make_record: "map fst (make_record a b c d t batch now) = record_keys"
  by (simp add: make_record_def record_keys_def)

lemma transaction_loop_keys:
  assumes "transaction_loop E p batch ts acc w = (Inr recs, w')"
    and "\<forall>r \<in> set acc. map fst r = record_keys"
  shows "\<forall>r \<in> set recs. map fst r = record_keys"
  using assms
proof (induction ts arbitrary: acc w)
  case Nil
  then show ?case by simp
next
  case (Cons t ts)
  from Cons.prems(1) obtain d where d: "t = PDict d"
    by (cases t) simp_all
  define r where "r = make_record (dict_get p ''project'' (PStr [])) (dict_get p ''street'' (PStr []))
        (dict_get p ''x'' (PStr [])) (dict_get p ''y'' (PStr [])) d batch (clock E (clock_ticks w))"
  have run: "transaction_loop E p batch ts (acc @ [r]) (w\<lparr>clock_ticks := Suc (clock_ticks w)\<rparr>) =
               (Inr recs, w')"
    using Cons.prems(1) by (simp add: d r_def)
  have "map fst r = record_keys"
    unfolding r_def by (rule keys_make_record)
  with Cons.prems(2) have "\<forall>x \<in> set (acc @ [r]). map fst x = record_keys"
    by simp
  from Cons.IH [OF run this] show ?case .
qed


lemma project_loop_keys:
  assumes "project_loop E batch ps acc w = (Inr recs, w')"
    and "\<forall>r \<in> set acc. map fst r = record_keys"
  shows "\<forall>r \<in> set recs. map fst r = record_keys"
  using assms
proof (induction ps arbitrary: acc w)
  case Nil
  then show ?case by simp
next
  case (Cons p ps)
  from Cons.prems(1) obtain d where d: "p = PDict d"
    by (cases p) simp_all
  from Cons.prems(1) obtain ts where ts: "py_iter (dict_get d ''transaction'' (PList [])) = Inr ts"
    by (cases "py_iter (dict_get d ''transaction'' (PList []))") (simp_all add: d)
  from Cons.prems(1) obtain recs1 w1 where
    t: "transaction_loop E d batch ts acc w = (Inr recs1, w1)"
    and rest: "project_loop E batch ps recs1 w1 = (Inr recs, w')"
    by (simp add: d ts split: prod.splits sum.splits)
  from transaction_loop_keys [OF t Cons.prems(2)] Cons.IH [OF rest] show ?case by blast
qed

lemma flatten_response_keys:
  assumes "flatten_response E batch data w = (Inr recs, w')"
  shows "\<forall>r \<in> set recs. map fst r = record_keys"
proof (cases "\<exists>projects. project_loop E batch projects [] w = (Inr recs, w')")
  case True
  then show ?thesis using project_loop_keys by fastforce
next
  case False
  with assms have "recs = []"
    by (auto simp: flatten_response_def split: if_splits sum.splits bool.splits)
  then show ?thesis by simp
qed

lemma get_private_keys:
  assumes "get_private_residential_transactions E self batch w = (Inr recs, w')"
  shows "\<forall>r \<in> set recs. map fst r = record_keys"
proof (cases "\<exists>data w1. flatten_response E batch data w1 = (Inr recs, w')")
  case True
  then show ?thesis using flatten_response_keys by blast
next
  case False
  with assms have "recs = []"
    by (auto simp: get_private_residential_transactions_def split: prod.splits sum.splits)
  then show ?thesis by simp
qed


text \<open>
  Claim C2, as amended. When three HTTP calls in a row fail, \<open>_make_request\<close> raises
  \<open>RetryError\<close>; \<open>get_private_residential_transactions\<close> itself catches it and
  returns the empty list to its caller, and the loop of
  \<open>get_all_available_transactions\<close>, which has no handler, goes on with the remaining
  batches with nothing added for the failed one.
\<close>

theorem failing_batch_caught_by_single_fetch:
  assumes "three_failures E (batch_request self batch) w"
  shows "make_request E self (resi_transaction_params batch) w =
           (Inl RetryError, w\<lparr>http_calls := http_calls w + 3\<rparr>) \<and>
         get_private_residential_transactions E self batch w =
           (Inr [], w\<lparr>http_calls := http_calls w + 3\<rparr>) \<and>
         batch_loop E self (batch # rest) all_transactions w =
           batch_loop E self rest all_transactions (w\<lparr>http_calls := http_calls w + 3\<rparr>)"
proof -
  have "\<forall>k<3. \<exists>e. http E (http_calls w + k) (batch_request self batch) = Inl e"
  proof (intro allI impI)
    fix k :: nat assume "k < 3"
    then have "k = 0 \<or> k = 1 \<or> k = 2" by arith
    with assms have "isl (http E (http_calls w + k) (batch_request self batch))"
      by (auto simp: three_failures_def)
    then show "\<exists>e. http E (http_calls w + k) (batch_request self batch) = Inl e"
      by (cases "http E (http_calls w + k) (batch_request self batch)") simp_all
  qed
  from attempts_all_fail [OF this]
  have m: "make_request E self (resi_transaction_params batch) w =
           (Inl RetryError, w\<lparr>http_calls := http_calls w + 3\<rparr>)"
    by (simp add: make_request_def batch_request_def)
  have g: "get_private_residential_transactions E self batch w =
           (Inr [], w\<lparr>http_calls := http_calls w + 3\<rparr>)"
    by (simp add: get_private_residential_transactions_def m)
  show ?thesis using m g by simp
qed

text \<open>
  Claim C2 as stated fails: on a network where every call fails, the single-batch
  fetch does not propagate the failure, it returns the empty list.
\<close>

theorem single_fetch_propagates_counterexample:
  "fst (get_private_residential_transactions failing_env scraper0 1 net0) = Inr []"
  by (simp add: get_private_residential_transactions_def make_request_def failing_env_def
      net0_def numeral_3_eq_3)

theorem failing_batch_caught_by_single_fetch_witness:
  "three_failures failing_env (batch_request scraper0 2) net0 \<and>
   get_private_residential_transactions failing_env scraper0 2 net0 =
     (Inr [], \<lparr>http_calls = 3, clock_ticks = 0\<rparr>) \<and>
   batch_loop failing_env scraper0 [2] [] net0 = (Inr [], \<lparr>http_calls = 3, clock_ticks = 0\<rparr>)"
proof -
  have h: "three_failures failing_env (batch_request scraper0 2) net0"
    by (simp add: three_failures_def failing_env_def)
  from failing_batch_caught_by_single_fetch [OF h, of "[]" "[]"] show ?thesis using h by (simp add: net0_def)
qed

text \<open>
  Claim C5. When the request yields a response with projects \<open>projects\<close>, each
  with its list of transaction objects, \<open>get_private_residential_transactions\<close>
  returns exactly one flat record per transaction object (the sum of the lists'
  lengths), in order, each holding its own project's \<open>project_name\<close>, \<open>street\<close>,
  \<open>x_coordinate\<close> and \<open>y_coordinate\<close>, with the empty string for every field
  missing from the source.
\<close>

theorem flatten_counts_and_parent_fields:
  assumes "make_request E self (resi_transaction_params batch) w = (Inr (PDict d), w1)"
    and "map_of d ''Result'' = Some (PList projects)"
    and "list_all well_formed_project projects"
  shows "\<exists>recs w'.
           get_private_residential_transactions E self batch w = (Inr recs, w') \<and>
           length recs = sum_list (map (\<lambda>p. length (project_transactions p)) projects) \<and>
           list_all2 (flat_record_of batch) recs (project_transaction_pairs projects)"
proof -
  from flatten_response_ok [OF assms(2,3), of E batch w1] obtain recs w' where
    f: "flatten_response E batch (PDict d) w1 = (Inr recs, w')"
    and rel: "list_all2 (flat_record_of batch) recs (project_transaction_pairs projects)"
    by blast
  have "get_private_residential_transactions E self batch w = (Inr recs, w')"
    by (simp add: get_private_residential_transactions_def assms(1) f)
  moreover have "length recs = sum_list (map (\<lambda>p. length (project_transactions p)) projects)"
    using list_all2_lengthD [OF rel] by (simp add: length_pairs)
  ultimately show ?thesis using rel by blast
qed

lemma skyline_run:
  "get_private_residential_transactions skyline_env scraper0 1 net0 =
     (Inr [skyline_record], \<lparr>http_calls = 1, clock_ticks = 1\<rparr>)"
  by (simp add: get_private_residential_transactions_def make_request_def skyline_env_def
      net0_def numeral_3_eq_3 flatten_response_def skyline_response_def skyline_projects_def
      py_get_def dict_get_def make_record_def skyline_record_def)

theorem flatten_counts_and_parent_fields_witness:
  "make_request skyline_env scraper0 (resi_transaction_params 1) net0 =
     (Inr (PDict skyline_response), \<lparr>http_calls = 1, clock_ticks = 0\<rparr>) \<and>
   map_of skyline_response ''Result'' = Some (PList skyline_projects) \<and>
   list_all well_formed_project skyline_projects \<and>
   get_private_residential_transactions skyline_env scraper0 1 net0 =
     (Inr [skyline_record], \<lparr>http_calls = 1, clock_ticks = 1\<rparr>) \<and>
   sum_list (map (\<lambda>p. length (project_transactions p)) skyline_projects) = 1"
proof -
  have h1: "make_request skyline_env scraper0 (resi_transaction_params 1) net0 =
     (Inr (PDict skyline_response), \<lparr>http_calls = 1, clock_ticks = 0\<rparr>)"
    by (simp add: make_request_def skyline_env_def net0_def numeral_3_eq_3)
  have h2: "map_of skyline_response ''Result'' = Some (PList skyline_projects)"
    by (simp add: skyline_response_def)
  have h3: "list_all well_formed_project skyline_projects"
    by (simp add: skyline_projects_def well_formed_project_def is_dict_def the_dict_def dict_get_def)
  from flatten_counts_and_parent_fields [OF h1 h2 h3] obtain recs w' where
    "get_private_residential_transactions skyline_env scraper0 1 net0 = (Inr recs, w')"
    "length recs = sum_list (map (\<lambda>p. length (project_transactions p)) skyline_projects)"
    by blast
  then have "sum_list (map (\<lambda>p. length (project_transactions p)) skyline_projects) = 1"
    by (auto simp: skyline_run)
  then show ?thesis using h1 h2 h3 skyline_run by simp
qed

lemma execute_page_ok:
  assumes "apply_rows S tn (map (zip cols) vals) (working db) = Some (T', ns)"
    and "\<not> failed_txn db"
  shows "execute_page S tn cols vals db =
           (Inr (), db\<lparr>working := T', rowcount := (if ns = [] then rowcount db else last ns),
                        issued := issued db @ map (Insert tn cols) vals\<rparr>)"
  using assms
proof (induction vals arbitrary: db T' ns)
  case Nil
  then show ?case by simp
next
  case (Cons v vals)
  from Cons.prems(1) obtain T1 n ns1 where
    s1: "insert_or_skip S tn (zip cols v) (working db) = Some (T1, n)"
    and s2: "apply_rows S tn (map (zip cols) vals) T1 = Some (T', ns1)"
    and ns: "ns = n # ns1"
    by (auto split: option.splits)
  let ?db1 = "db\<lparr>issued := issued db @ [Insert tn cols v], working := T1, rowcount := n\<rparr>"
  have e: "execute_insert S tn cols v db = (Inr (), ?db1)"
    using Cons.prems(2) s1 by (simp add: execute_insert_def)
  have "execute_page S tn cols vals ?db1 =
          (Inr (), ?db1\<lparr>working := T', rowcount := (if ns1 = [] then rowcount ?db1 else last ns1),
                        issued := issued ?db1 @ map (Insert tn cols) vals\<rparr>)"
    using Cons.IH [of ?db1 T' ns1] s2 Cons.prems(2) by simp
  then show ?case using e by (simp add: ns)
qed

lemma execute_page_fails:
  assumes "apply_rows S tn (map (zip cols) vals) (working db) = None"
    and "\<not> failed_txn db"
  shows "\<exists>db'. execute_page S tn cols vals db = (Inl DatabaseError, db') \<and> same_session db db'"
  using assms
proof (induction vals arbitrary: db)
  case Nil
  then show ?case by simp
next
  case (Cons v vals)
  show ?case
  proof (cases "insert_or_skip S tn (zip cols v) (working db)")
    case None
    then show ?thesis using Cons.prems(2)
      by (simp add: execute_insert_def same_session_def)
  next
    case (Some a)
    then obtain T1 n where s1: "insert_or_skip S tn (zip cols v) (working db) = Some (T1, n)"
      by (cases a) simp
    let ?db1 = "db\<lparr>issued := issued db @ [Insert tn cols v], working := T1, rowcount := n\<rparr>"
    have e: "execute_insert S tn cols v db = (Inr (), ?db1)"
      using Cons.prems(2) s1 by (simp add: execute_insert_def)
    from Cons.prems(1) s1 have "apply_rows S tn (map (zip cols) vals) (working ?db1) = None"
      by (simp split: option.splits prod.splits)
    from Cons.IH [OF this] Cons.prems(2) obtain db' where
      "execute_page S tn cols vals ?db1 = (Inl DatabaseError, db')" "same_session ?db1 db'"
      by auto
    then show ?thesis using e by (simp add: same_session_def)
  qed
qed


lemma execute_page_append:
  "execute_page S tn cols (xs @ ys) db =
     (case execute_page S tn cols xs db of
        (Inl e, db') \<Rightarrow> (Inl e, db')
      | (Inr u, db') \<Rightarrow> execute_page S tn cols ys db')"
  by (induction xs arbitrary: db) (auto split: prod.splits sum.splits)

lemma mogrify_page_ok:
  "list_all (\<lambda>v. length v = length cols) page \<Longrightarrow> mogrify_page cols page = Inr ()"
  by (induction page) (simp_all add: mogrify_def)

lemma page_loop_concat:
  "list_all (list_all (\<lambda>v. length v = length cols)) pages \<Longrightarrow>
   page_loop S tn cols pages db = execute_page S tn cols (concat pages) db"
proof (induction pages arbitrary: db)
  case Nil
  then show ?case by simp
next
  case (Cons page pages)
  then have m: "mogrify_page cols page = Inr ()" and
    rest: "list_all (list_all (\<lambda>v. length v = length cols)) pages"
    by (simp_all add: mogrify_page_ok)
  show ?case
    by (simp add: m execute_page_append Cons.IH [OF rest] split: prod.splits sum.splits)
qed

lemma concat_chunks_of: "0 < n \<Longrightarrow> concat (chunks_of n xs) = xs"
proof (induction n xs rule: chunks_of.induct)
  case (1 n xs)
  show ?case
  proof (cases "xs = []")
    case True
    then show ?thesis by (simp add: chunks_of.simps)
  next
    case False
    with 1 have "concat (chunks_of n (drop n xs)) = drop n xs" by simp
    with False 1(2) show ?thesis
      by (subst chunks_of.simps) simp
  qed
qed

lemma list_all_chunks_of:
  "list_all P xs \<Longrightarrow> list_all (list_all P) (chunks_of n xs)"
proof (induction n xs rule: chunks_of.induct)
  case (1 n xs)
  show ?case
  proof (cases "n = 0 \<or> xs = []")
    case True
    then show ?thesis by (subst chunks_of.simps) simp
  next
    case False
    from 1(2) have a: "list_all P (take n xs)" and b: "list_all P (drop n xs)"
      by (auto simp: list_all_iff dest: in_set_takeD in_set_dropD)
    from 1(1) [OF False b] a False show ?thesis
      by (subst chunks_of.simps) simp
  qed
qed

lemma execute_batch_is_page:
  assumes "list_all (\<lambda>v. length v = length cols) vals"
  shows "execute_batch S tn cols vals db = execute_page S tn cols vals db"
  using page_loop_concat [OF list_all_chunks_of [OF assms], of S tn 100 db]
  by (simp add: execute_batch_def concat_chunks_of)

lemma chunk_rows_Cons:
  "chunk_rows (first # others) = map (zip (map fst first)) (map (map snd) (first # others))"
  by (simp add: chunk_rows_def)

lemma insert_batch_unfold:
  "insert_batch S tn (first # others) db =
     (case execute_batch S tn (map fst first) (map (map snd) (first # others)) db of
        (Inl e, db') \<Rightarrow> (Inl e, db')
      | (Inr u, db') \<Rightarrow> (Inr (Some (rowcount (commit db'))), commit db'))"
  by (simp add: insert_batch_def)

lemma insert_batch_ok:
  assumes "chunk_effect S tn (first # others) (working db) = Some (T', ns)"
    and "list_all (\<lambda>r. length r = length first) (first # others)"
    and "\<not> failed_txn db"
  shows "insert_batch S tn (first # others) db =
           (Inr (Some (last ns)),
            db\<lparr>working := T', committed := T', rowcount := last ns,
               issued := issued db @ map (Insert tn (map fst first)) (map (map snd) (first # others))\<rparr>)"
proof -
  define vals where "vals = map (map snd) (first # others)"
  define cols where "cols = map fst first"
  have w: "list_all (\<lambda>v. length v = length cols) vals"
    using assms(2) by (simp add: list_all_iff vals_def cols_def)
  have a: "apply_rows S tn (map (zip cols) vals) (working db) = Some (T', ns)"
    using assms(1) unfolding chunk_effect_def chunk_rows_Cons vals_def cols_def .
  have ne: "ns \<noteq> []"
    using a by (auto simp: vals_def split: option.splits prod.splits)
  have eb: "execute_batch S tn cols vals db =
              (Inr (), db\<lparr>working := T', rowcount := last ns,
                           issued := issued db @ map (Insert tn cols) vals\<rparr>)"
    using execute_page_ok [OF a assms(3)] ne by (simp add: execute_batch_is_page [OF w])
  show ?thesis
    unfolding insert_batch_unfold vals_def [symmetric] cols_def [symmetric] eb
    using assms(3) by (simp add: commit_def)
qed

lemma insert_batch_fails:
  assumes "chunk_effect S tn (first # others) (working db) = None"
    and "list_all (\<lambda>r. length r = length first) (first # others)"
    and "\<not> failed_txn db"
  shows "\<exists>db'. insert_batch S tn (first # others) db = (Inl DatabaseError, db') \<and> same_session db db'"
proof -
  define vals where "vals = map (map snd) (first # others)"
  define cols where "cols = map fst first"
  have w: "list_all (\<lambda>v. length v = length cols) vals"
    using assms(2) by (simp add: list_all_iff vals_def cols_def)
  have a: "apply_rows S tn (map (zip cols) vals) (working db) = None"
    using assms(1) unfolding chunk_effect_def chunk_rows_Cons vals_def cols_def .
  from execute_page_fails [OF a assms(3)] obtain db' where
    "execute_page S tn cols vals db = (Inl DatabaseError, db')" and ss: "same_session db db'"
    by blast
  then have eb: "execute_batch S tn cols vals db = (Inl DatabaseError, db')"
    by (simp add: execute_batch_is_page [OF w])
  have "insert_batch S tn (first # others) db = (Inl DatabaseError, db')"
    unfolding insert_batch_unfold vals_def [symmetric] cols_def [symmetric] eb by simp
  with ss show ?thesis by blast
qed


lemma chunks_of_drop_step:
  assumes "0 < bs" and "i < length txs"
  shows "chunks_of bs (drop i txs) = take bs (drop i txs) # chunks_of bs (drop (i + bs) txs)"
  using assms by (subst chunks_of.simps) (simp add: add.commute)

lemma batch_numbers_step:
  "map (\<lambda>j. (i + j * bs) div bs + 1) [0..<Suc m] =
     (i div bs + 1) # map (\<lambda>j. (i + bs + j * bs) div bs + 1) [0..<m]"
proof -
  have "map (\<lambda>j. (i + j * bs) div bs + 1) [0..<Suc m] =
          ((i + 0 * bs) div bs + 1) # map (\<lambda>j. (i + Suc j * bs) div bs + 1) [0..<m]"
    by (rule map_upt_Suc)
  then show ?thesis by (simp add: add.assoc)
qed

lemma chunk_loop_isolated:
  assumes "0 < bs" and "list_all (\<lambda>r. length r = w) txs"
  shows "working db = committed db \<Longrightarrow> \<not> failed_txn db \<Longrightarrow>
     \<exists>db'. chunk_loop S tn txs bs i tot db =
             (Inr (tot + fst (reported_chunks S tn (chunks_of bs (drop i txs)) (committed db))), db') \<and>
           committed db' = snd (reported_chunks S tn (chunks_of bs (drop i txs)) (committed db)) \<and>
           working db' = committed db' \<and> \<not> failed_txn db' \<and> conn_open db' = conn_open db \<and>
           map event_batch_num (log db') =
             map event_batch_num (log db) @
             map (\<lambda>j. (i + j * bs) div bs + 1) [0..<length (chunks_of bs (drop i txs))]"
proof (induction "length txs - i" arbitrary: i tot db rule: less_induct)
  case less
  show ?case
  proof (cases "i < length txs")
    case False
    then have "chunks_of bs (drop i txs) = []"
      by (simp add: chunks_of.simps)
    moreover have "chunk_loop S tn txs bs i tot db = (Inr tot, db)"
      using False by (simp add: chunk_loop.simps)
    ultimately show ?thesis using less.prems by simp
  next
    case True
    define batch where "batch = take bs (drop i txs)"
    define tb where "tb = (int (length txs) + int bs - 1) div int bs"
    define rest where "rest = chunks_of bs (drop (i + bs) txs)"
    from True assms(1) have "batch \<noteq> []" by (simp add: batch_def)
    then obtain first others where fo: "batch = first # others"
      by (cases batch) simp_all
    have "set batch \<subseteq> set txs"
      unfolding batch_def by (meson in_set_dropD in_set_takeD subsetI)
    with assms(2) have "\<forall>r \<in> set batch. length r = w"
      by (auto simp: list_all_iff)
    then have width: "list_all (\<lambda>r. length r = length first) (first # others)"
      by (simp add: fo list_all_iff)
    have step: "chunks_of bs (drop i txs) = batch # rest"
      unfolding batch_def rest_def using chunks_of_drop_step [OF assms(1) True] .
    have smaller: "length txs - (i + bs) < length txs - i"
      using True assms(1) by arith
    have unfold: "chunk_loop S tn txs bs i tot db =
       (case insert_batch S tn batch db of
          (Inr None, db') \<Rightarrow> chunk_loop S tn txs bs (i + bs) tot db'
        | (Inr (Some inserted_count), db') \<Rightarrow>
            chunk_loop S tn txs bs (i + bs) (tot + inserted_count)
              (db'\<lparr>log := log db' @ [BatchInserted (i div bs + 1) tb inserted_count]\<rparr>)
        | (Inl e, db') \<Rightarrow>
            if is_psycopg2_error e
            then chunk_loop S tn txs bs (i + bs) tot
                   (rollback (db'\<lparr>log := log db' @ [BatchError (i div bs + 1) tb]\<rparr>))
            else (Inl e, db'))"
      using True assms(1)
      by (subst chunk_loop.simps)
         (simp add: batch_def tb_def Let_def split: prod.splits sum.splits option.splits)
    show ?thesis
    proof (cases "chunk_effect S tn batch (committed db)")
      case None
      then have "chunk_effect S tn (first # others) (working db) = None"
        using less.prems(1) fo by simp
      from insert_batch_fails [OF this width less.prems(2)] obtain db1 where
        ib: "insert_batch S tn batch db = (Inl DatabaseError, db1)" and ss: "same_session db db1"
        using fo by auto
      define db2 where "db2 = rollback (db1\<lparr>log := log db1 @ [BatchError (i div bs + 1) tb]\<rparr>)"
      have loop: "chunk_loop S tn txs bs i tot db = chunk_loop S tn txs bs (i + bs) tot db2"
        unfolding unfold ib db2_def by (simp add: is_psycopg2_error_def)
      have c2: "working db2 = committed db2" "\<not> failed_txn db2" "committed db2 = committed db"
        "conn_open db2 = conn_open db" "log db2 = log db @ [BatchError (i div bs + 1) tb]"
        using ss by (simp_all add: db2_def rollback_def same_session_def)
      from less.hyps [OF smaller c2(1) c2(2), of tot] obtain db' where
        r: "chunk_loop S tn txs bs (i + bs) tot db2 =
              (Inr (tot + fst (reported_chunks S tn rest (committed db2))), db')"
        and s: "committed db' = snd (reported_chunks S tn rest (committed db2))"
          "working db' = committed db'" "\<not> failed_txn db'" "conn_open db' = conn_open db2"
        and l: "map event_batch_num (log db') =
             map event_batch_num (log db2) @ map (\<lambda>j. (i + bs + j * bs) div bs + 1) [0..<length rest]"
        unfolding rest_def by blast
      have iso: "reported_chunks S tn (batch # rest) (committed db) =
                   reported_chunks S tn rest (committed db)"
        using None by simp
      have nums: "map event_batch_num (log db') =
             map event_batch_num (log db) @ map (\<lambda>j. (i + j * bs) div bs + 1) [0..<length (batch # rest)]"
        using l c2(5) batch_numbers_step [of i bs "length rest"] by simp
      show ?thesis
        unfolding step loop r iso using s c2 nums by simp
    next
      case (Some a)
      then obtain T' ns where ce: "chunk_effect S tn batch (committed db) = Some (T', ns)"
        by (cases a) simp
      then have "chunk_effect S tn (first # others) (working db) = Some (T', ns)"
        using less.prems(1) fo by simp
      from insert_batch_ok [OF this width less.prems(2)] obtain db1 where
        ib: "insert_batch S tn batch db = (Inr (Some (last ns)), db1)"
        and d1: "working db1 = T'" "committed db1 = T'" "failed_txn db1 = failed_txn db"
          "conn_open db1 = conn_open db" "log db1 = log db"
        using fo by auto
      define db2 where "db2 = db1\<lparr>log := log db1 @ [BatchInserted (i div bs + 1) tb (last ns)]\<rparr>"
      have loop: "chunk_loop S tn txs bs i tot db = chunk_loop S tn txs bs (i + bs) (tot + last ns) db2"
        unfolding unfold ib db2_def by simp
      have c2: "working db2 = committed db2" "\<not> failed_txn db2" "committed db2 = T'"
        "conn_open db2 = conn_open db" "log db2 = log db @ [BatchInserted (i div bs + 1) tb (last ns)]"
        using d1 less.prems(2) by (simp_all add: db2_def)
      from less.hyps [OF smaller c2(1) c2(2), of "tot + last ns"] obtain db' where
        r: "chunk_loop S tn txs bs (i + bs) (tot + last ns) db2 =
              (Inr (tot + last ns + fst (reported_chunks S tn rest (committed db2))), db')"
        and s: "committed db' = snd (reported_chunks S tn rest (committed db2))"
          "working db' = committed db'" "\<not> failed_txn db'" "conn_open db' = conn_open db2"
        and l: "map event_batch_num (log db') =
             map event_batch_num (log db2) @ map (\<lambda>j. (i + bs + j * bs) div bs + 1) [0..<length rest]"
        unfolding rest_def by blast
      have iso: "reported_chunks S tn (batch # rest) (committed db) =
                   (last ns + fst (reported_chunks S tn rest T'), snd (reported_chunks S tn rest T'))"
        using ce by (simp split: prod.splits)
      have nums: "map event_batch_num (log db') =
             map event_batch_num (log db) @ map (\<lambda>j. (i + j * bs) div bs + 1) [0..<length (batch # rest)]"
        using l c2(5) batch_numbers_step [of i bs "length rest"] by simp
      show ?thesis
        unfolding step loop r iso using s c2 nums by simp
    qed
  qed
qed

lemma reported_chunks_tables:
  "snd (reported_chunks S tn cs T) = snd (isolated_chunks S tn cs T)"
proof (induction cs arbitrary: T)
  case Nil
  show ?case by simp
next
  case (Cons c cs)
  show ?case
  proof (cases "chunk_effect S tn c T")
    case None
    then show ?thesis using Cons.IH [of T] by simp
  next
    case (Some a)
    obtain T' ns where a: "a = (T', ns)" by (cases a)
    have r: "snd (reported_chunks S tn (c # cs) T) = snd (reported_chunks S tn cs T')"
      using Some a by (simp split: prod.splits)
    have i: "snd (isolated_chunks S tn (c # cs) T) = snd (isolated_chunks S tn cs T')"
      using Some a by (simp split: prod.splits)
    show ?thesis unfolding r i by (rule Cons.IH)
  qed
qed

text \<open>
  What holds of \<open>insert_transactions\<close> with a positive batch size, records of one
  width (so that filling in the statement never fails) and a client between
  transactions. The tables afterwards are those of the specification: a chunk whose
  insert raises a database error leaves them as they were before it, and the later
  chunks take effect. Every chunk is attempted: the log has one entry per chunk,
  numbered from 1 to the number of chunks. The total returned is the sum of what
  the cursor reported for the successful chunks.
\<close>

lemma insert_transactions_by_chunks:
  assumes "0 < batch_size" and "transactions \<noteq> []"
    and "list_all (\<lambda>r. length r = width) transactions"
    and "conn_open db" and "working db = committed db" and "\<not> failed_txn db"
  shows "\<exists>db'.
           insert_transactions S table_name transactions batch_size db =
             (Inr (fst (reported_chunks S table_name (chunks_of (nat batch_size) transactions)
                          (committed db))), db') \<and>
           committed db' =
             snd (isolated_chunks S table_name (chunks_of (nat batch_size) transactions) (committed db)) \<and>
           working db' = committed db' \<and>
           map event_batch_num (log db') =
             map event_batch_num (log db) @
             [1..<Suc (length (chunks_of (nat batch_size) transactions))]"
proof -
  define db1 where "db1 = db\<lparr>rowcount := - 1\<rparr>"
  have c: "working db1 = committed db1" "\<not> failed_txn db1" "committed db1 = committed db"
    "log db1 = log db"
    using assms(5,6) by (simp_all add: db1_def)
  have bs: "0 < nat batch_size" using assms(1) by simp
  from chunk_loop_isolated [OF bs assms(3) c(1) c(2), of S table_name 0 0] obtain db' where
    r: "chunk_loop S table_name transactions (nat batch_size) 0 0 db1 =
          (Inr (fst (reported_chunks S table_name (chunks_of (nat batch_size) transactions)
                       (committed db1))), db')"
    and s: "committed db' =
              snd (reported_chunks S table_name (chunks_of (nat batch_size) transactions) (committed db1))"
      "working db' = committed db'"
    and l: "map event_batch_num (log db') =
              map event_batch_num (log db1) @
              map (\<lambda>j. (0 + j * nat batch_size) div nat batch_size + 1)
                [0..<length (chunks_of (nat batch_size) transactions)]"
    by auto
  have "map (\<lambda>j. (0 + j * nat batch_size) div nat batch_size + 1)
          [0..<length (chunks_of (nat batch_size) transactions)] =
        map Suc [0..<length (chunks_of (nat batch_size) transactions)]"
    using bs by simp
  also have "\<dots> = [1..<Suc (length (chunks_of (nat batch_size) transactions))]"
    by (simp add: map_Suc_upt)
  finally have nums: "map event_batch_num (log db') =
      map event_batch_num (log db) @ [1..<Suc (length (chunks_of (nat batch_size) transactions))]"
    using l c(4) by simp
  have "insert_transactions S table_name transactions batch_size db =
          chunk_loop S table_name transactions (nat batch_size) 0 0 db1"
    using assms(1,2,4) by (simp add: insert_transactions_def db1_def)
  with r s nums c(3) show ?thesis by (simp add: reported_chunks_tables)
qed

text \<open>
  Claim C4 at a failing input. Three records in chunks of two; the server refuses
  the third record. The first chunk inserts its two rows and is committed, the
  second chunk fails and is rolled back, and the call returns 1, the \<open>rowcount\<close> of
  the last statement of the first chunk. The sum of the rows inserted by the
  successful chunks, which the claim promises, is 2.
\<close>

theorem successful_chunk_counted_by_last_statement:
  "fst (insert_transactions refusing_schema ''condo_transactions'' [rec1, rec2, rec_bad] 2 db0) =
     Inr 1 \<and>
   committed (snd (insert_transactions refusing_schema ''condo_transactions'' [rec1, rec2, rec_bad] 2 db0))
     ''condo_transactions'' = Some [rec1, rec2] \<and>
   log (snd (insert_transactions refusing_schema ''condo_transactions'' [rec1, rec2, rec_bad] 2 db0)) =
     [BatchInserted 1 2 1, BatchError 2 2] \<and>
   fst (isolated_chunks refusing_schema ''condo_transactions'' (chunks_of 2 [rec1, rec2, rec_bad])
          (committed db0)) = 2"
  by code_simp

text \<open>
  Claim C3 at a failing input. Two distinct records go into an empty table in one
  chunk: both rows are inserted, and the call returns 1, the \<open>rowcount\<close> of the
  last statement, where the claim promises the number of rows inserted.
\<close>

theorem insert_returns_last_statement_count:
  "fst (insert_transactions unique_rows ''condo_transactions'' [rec1, rec2] 1000 db0) = Inr 1 \<and>
   committed (snd (insert_transactions unique_rows ''condo_transactions'' [rec1, rec2] 1000 db0))
     ''condo_transactions'' = Some [rec1, rec2]"
  by code_simp

text \<open>
  Claim C6 at a failing input. Three distinct records go into an empty table whose
  uniqueness constraint covers the whole row. The first call inserts the three
  rows and returns 1 where the claim promises 3; the second call returns 0 and
  leaves the table as it was.
\<close>

theorem reinsert_first_call_count:
  "fst first_call = Inr 1 \<and>
   committed (snd first_call) ''condo_transactions'' = Some [rec1, rec2, rec3] \<and>
   fst second_call = Inr 0 \<and>
   committed (snd second_call) ''condo_transactions'' = Some [rec1, rec2, rec3]"
  by code_simp

text \<open>
  Claim C8. With an empty list \<open>insert_transactions\<close> returns 0 and leaves the
  client as it was: no cursor, no statement.
\<close>

theorem empty_input_returns_zero_without_query:
  "insert_transactions S table_name [] batch_size db = (Inr 0, db) \<and>
   issued (snd (insert_transactions S table_name [] batch_size db)) = issued db"
  by (simp add: insert_transactions_def)


lemma produced_keys: "produced_by_fetch r \<Longrightarrow> map fst r = record_keys"
  unfolding produced_by_fetch_def using get_private_keys by blast

text \<open>
  Claim C10. Every record produced by \<open>get_private_residential_transactions\<close> has
  the seventeen keys of \<open>record_keys\<close> in that order. Hence in every slice that
  \<open>insert_transactions\<close> takes from a list of such records, each record has the
  keys of the first one, its value tuple fills the placeholders of the statement
  exactly, and pairing the columns of the first record with its values gives the
  record back.
\<close>

theorem fetched_records_share_columns:
  assumes "list_all produced_by_fetch transactions"
    and "take batch_size (drop i transactions) = first # others"
  shows "list_all (\<lambda>r. map fst r = record_keys) transactions \<and>
         list_all (\<lambda>txn. map fst txn = map fst first \<and>
                     mogrify (map fst first) (map snd txn) = Inr () \<and>
                     zip (map fst first) (map snd txn) = txn) (first # others)"
proof -
  have keys: "list_all (\<lambda>r. map fst r = record_keys) transactions"
    using assms(1) by (simp add: list_all_iff produced_keys)
  have "set (first # others) \<subseteq> set transactions"
    unfolding assms(2) [symmetric] by (meson in_set_dropD in_set_takeD subsetI)
  with keys have k: "\<forall>txn \<in> set (first # others). map fst txn = record_keys"
    by (auto simp: list_all_iff)
  then have f: "map fst first = record_keys" by simp
  have "\<forall>txn \<in> set (first # others). map fst txn = map fst first \<and>
           mogrify (map fst first) (map snd txn) = Inr () \<and>
           zip (map fst first) (map snd txn) = txn"
  proof
    fix txn assume "txn \<in> set (first # others)"
    with k f have e: "map fst txn = map fst first" by auto
    then have "length txn = length first"
      by (metis length_map)
    then have "mogrify (map fst first) (map snd txn) = Inr ()"
      by (simp add: mogrify_def)
    moreover have "zip (map fst first) (map snd txn) = txn"
      unfolding e [symmetric] by (simp add: zip_map_fst_snd)
    ultimately show "map fst txn = map fst first \<and>
           mogrify (map fst first) (map snd txn) = Inr () \<and>
           zip (map fst first) (map snd txn) = txn"
      using e by simp
  qed
  with keys show ?thesis by (simp add: list_all_iff)
qed

lemma skyline_produced: "produced_by_fetch skyline_record"
  unfolding produced_by_fetch_def using skyline_run by fastforce

theorem fetched_records_share_columns_witness:
  "list_all produced_by_fetch [skyline_record, skyline_record] \<and>
   take 1000 (drop 0 [skyline_record, skyline_record]) = skyline_record # [skyline_record] \<and>
   map fst skyline_record = record_keys \<and>
   mogrify (map fst skyline_record) (map snd skyline_record) = Inr ()"
proof -
  have h1: "list_all produced_by_fetch [skyline_record, skyline_record]"
    by (simp add: skyline_produced)
  have h2: "take 1000 (drop 0 [skyline_record, skyline_record]) = skyline_record # [skyline_record]"
    by simp
  from fetched_records_share_columns [OF h1 h2] h1 h2 show ?thesis by auto
qed

lemma order_desc_no_null:
  assumes "PNone \<notin> set vs"
  shows "order_desc ord_key vs = rev (sort_key ord_key vs)"
proof -
  have "filter (\<lambda>v. v = PNone) vs = []" using assms by (induction vs) auto
  moreover have "filter (\<lambda>v. v \<noteq> PNone) vs = vs" using assms by (induction vs) auto
  ultimately show ?thesis by (simp add: order_desc_def)
qed

lemma sorted_le_last:
  fixes xs :: "'k::linorder list"
  shows "sorted xs \<Longrightarrow> x \<in> set xs \<Longrightarrow> x \<le> last xs"
  by (induction xs) auto

lemma last_sort_key_max:
  fixes f :: "'a \<Rightarrow> 'k::linorder"
  assumes "xs \<noteq> []"
  shows "last (sort_key f xs) \<in> set xs \<and> (\<forall>u \<in> set xs. f u \<le> f (last (sort_key f xs)))"
proof -
  let ?ys = "sort_key f xs"
  have ne: "?ys \<noteq> []" using assms by (metis length_0_conv length_sort)
  have s: "sorted (map f ?ys)" by (rule sorted_sort_key)
  have m: "last ?ys \<in> set xs" using ne by (metis last_in_set set_sort)
  have "\<forall>u \<in> set xs. f u \<le> f (last ?ys)"
  proof
    fix u assume "u \<in> set xs"
    then have "f u \<in> set (map f ?ys)" by simp
    with s have "f u \<le> last (map f ?ys)"
      by (rule sorted_le_last)
    then show "f u \<le> f (last ?ys)" using ne by (simp add: last_map)
  qed
  with m show ?thesis by blast
qed

lemma order_desc_head:
  fixes ord_key :: "pyval \<Rightarrow> 'k::linorder"
  assumes "vs \<noteq> []" and "PNone \<notin> set vs"
  shows "\<exists>v rest. order_desc ord_key vs = v # rest \<and> v \<in> set vs \<and> (\<forall>u \<in> set vs. ord_key u \<le> ord_key v)"
proof -
  let ?ys = "sort_key ord_key vs"
  have ne: "?ys \<noteq> []" using assms(1) by (metis length_0_conv length_sort)
  then have "rev ?ys = last ?ys # rev (butlast ?ys)"
    by (metis append_butlast_last_id rev.simps(2) rev_append rev_rev_ident append_Cons append_Nil rev_singleton_conv)
  with last_sort_key_max [OF assms(1), of ord_key] order_desc_no_null [OF assms(2), of ord_key]
  show ?thesis by simp
qed

text \<open>
  What holds of \<open>get_latest_transaction_date\<close> when the query can run (connection
  open, transaction not failed, the table and the column exist): on an empty table
  it returns \<open>None\<close>; on a non-empty table whose date column holds no NULL it
  returns a value of the column that is greatest in the column's order.
\<close>

lemma latest_date_is_none_or_maximum:
  fixes ord_key :: "pyval \<Rightarrow> 'k::linorder"
  assumes "conn_open db" and "\<not> failed_txn db"
    and "working db table_name = Some rows" and "has_column S table_name date_column"
  shows "(rows = [] \<longrightarrow>
            fst (get_latest_transaction_date S ord_key table_name date_column db) = Inr PNone) \<and>
         (rows \<noteq> [] \<and> PNone \<notin> set (column_values date_column rows) \<longrightarrow>
            (\<exists>latest.
               fst (get_latest_transaction_date S ord_key table_name date_column db) = Inr latest \<and>
               latest \<in> set (column_values date_column rows) \<and>
               (\<forall>d \<in> set (column_values date_column rows). ord_key d \<le> ord_key latest)))"
proof (intro conjI impI)
  assume "rows = []"
  then show "fst (get_latest_transaction_date S ord_key table_name date_column db) = Inr PNone"
    using assms
    by (simp add: get_latest_transaction_date_def select_latest_def column_values_def order_desc_def)
next
  assume a: "rows \<noteq> [] \<and> PNone \<notin> set (column_values date_column rows)"
  then have "column_values date_column rows \<noteq> []" by (simp add: column_values_def)
  from order_desc_head [OF this, of ord_key] a obtain v rest where
    o: "order_desc ord_key (column_values date_column rows) = v # rest"
    and v: "v \<in> set (column_values date_column rows)"
      "\<forall>u \<in> set (column_values date_column rows). ord_key u \<le> ord_key v"
    by blast
  have "fst (get_latest_transaction_date S ord_key table_name date_column db) = Inr v"
    using assms o by (simp add: get_latest_transaction_date_def select_latest_def)
  with v show "\<exists>latest.
               fst (get_latest_transaction_date S ord_key table_name date_column db) = Inr latest \<and>
               latest \<in> set (column_values date_column rows) \<and>
               (\<forall>d \<in> set (column_values date_column rows). ord_key d \<le> ord_key latest)"
    by blast
qed


text \<open>The example of the specification: three dates, and an empty table.\<close>

lemma latest_date_example:
  "conn_open dated_db \<and> \<not> failed_txn dated_db \<and>
   working dated_db ''condo_transactions'' = Some dated_rows \<and>
   working dated_db ''landed_transactions'' = Some [] \<and>
   has_column unique_rows ''condo_transactions'' ''contract_date'' \<and>
   dated_rows \<noteq> [] \<and> PNone \<notin> set (column_values ''contract_date'' dated_rows) \<and>
   fst (get_latest_transaction_date unique_rows date_number ''condo_transactions''
          ''contract_date'' dated_db) = Inr (PStr ''2024-06-15'') \<and>
   fst (get_latest_transaction_date unique_rows date_number ''landed_transactions''
          ''contract_date'' dated_db) = Inr PNone"
proof -
  have h: "conn_open dated_db" "\<not> failed_txn dated_db"
    by (simp_all add: dated_db_def)
  have t1: "working dated_db ''condo_transactions'' = Some dated_rows"
    and t2: "working dated_db ''landed_transactions'' = Some []"
    by (simp_all add: dated_db_def empty_tables_def)
  have c: "has_column unique_rows ''condo_transactions'' ''contract_date''"
    "has_column unique_rows ''landed_transactions'' ''contract_date''"
    by (simp_all add: unique_rows_def)
  have n: "dated_rows \<noteq> []" "PNone \<notin> set (column_values ''contract_date'' dated_rows)"
    by (simp_all add: dated_rows_def column_values_def dict_get_def)
  from latest_date_is_none_or_maximum [OF h t2 c(2), of date_number]
  have empty: "fst (get_latest_transaction_date unique_rows date_number ''landed_transactions''
          ''contract_date'' dated_db) = Inr PNone"
    by simp
  have ex: "\<exists>latest.
      fst (get_latest_transaction_date unique_rows date_number ''condo_transactions''
             ''contract_date'' dated_db) = Inr latest \<and>
      latest \<in> set (column_values ''contract_date'' dated_rows) \<and>
      (\<forall>d \<in> set (column_values ''contract_date'' dated_rows). date_number d \<le> date_number latest)"
    by (rule mp [OF conjunct2 [OF latest_date_is_none_or_maximum [OF h t1 c(1), of date_number]] conjI [OF n(1) n(2)]])
  have "fst (get_latest_transaction_date unique_rows date_number ''condo_transactions''
          ''contract_date'' dated_db) = Inr (PStr ''2024-06-15'')"
    by code_simp
  with ex h t1 t2 c n empty show ?thesis by simp
qed

text \<open>
  Claim C7 at a failing input. The table holds the three dates of the
  specification's example and one row whose date is NULL (the fetch keeps a null
  \<open>contractDate\<close>, and the insert stores Python's \<open>None\<close> as NULL). In descending
  order PostgreSQL puts NULL first, the one-element tuple holding \<open>None\<close> is true,
  and \<open>get_latest_transaction_date\<close> returns \<open>None\<close> for a table that is not empty
  and whose greatest date is 2024-06-15.
\<close>

theorem latest_date_is_none_with_null_row:
  "working null_dated_db ''condo_transactions'' =
     Some ([(''contract_date'', PNone)] # dated_rows) \<and>
   column_values ''contract_date'' ([(''contract_date'', PNone)] # dated_rows) =
     [PNone, PStr ''2023-01-01'', PStr ''2024-06-15'', PStr ''2023-11-02''] \<and>
   fst (get_latest_transaction_date unique_rows date_number ''condo_transactions''
          ''contract_date'' null_dated_db) = Inr PNone"
  by code_simp

text \<open>
  Claim C9 at a failing input. The configuration is valid, the database is
  reachable and the API answers with a transaction whose \<open>propertyType\<close> is null:
  the classification raises \<open>AttributeError\<close>, \<open>main\<close> returns 1 through its
  handler, and the connection it had opened is still open.
\<close>

theorem fatal_error_leaves_connection_open:
  "fst (main null_type_env unique_rows date_number config0 fetch_and_store world0) = 1 \<and>
   conn_open (w_db world0) = False \<and>
   conn_open (w_db (snd (main null_type_env unique_rows date_number config0 fetch_and_store world0))) = True"
  by code_simp

text \<open>
  The other exit paths: a run that returns 0 has closed the connection, and a
  configuration error returns 1 before any connection is made.
\<close>

lemma normal_run:
  "fst (main skyline_env unique_rows date_number config0 fetch_and_store world0) = 0 \<and>
   conn_open (w_db (snd (main skyline_env unique_rows date_number config0 fetch_and_store world0))) = False"
  by code_simp

lemma main_success_closes:
  fixes ord_key :: "pyval \<Rightarrow> 'k::linorder"
  assumes "fst (main E S ord_key cfg args w) = 0"
  shows "\<not> conn_open (w_db (snd (main E S ord_key cfg args w)))"
  using assms
  by (auto simp: main_def run_pipeline_def close_def Let_def split: sum.splits prod.splits if_splits)

lemma main_configuration_error:
  fixes ord_key :: "pyval \<Rightarrow> 'k::linorder"
  assumes "validate cfg = Inl e"
  shows "main E S ord_key cfg args w = (1, w)"
  using assms by (simp add: main_def)


end
